theory Spec2Isabelle
  imports Complex_Main "HOL-Library.Word" "HOL-Library.Signed_Division"
begin

unbundle bit_operations_syntax

section \<open>Errors, numbers and text\<close>

text \<open>
  Every error the service can hand to its caller is a value. Errors made by the service
  itself (\<^verbatim>\<open>errors.New\<close>, \<^verbatim>\<open>fmt.Errorf\<close>) carry their message, \<open>Wrapped\<close> when
  the message ends in the text of another error; the two failures of \<^verbatim>\<open>strconv\<close> are told apart; an error that comes back from a collaborator
  (config store, OAuth library, HTTP transport, JSON or bolt11 decoder, node, database)
  is \<open>External\<close> with whatever text the collaborator chose.
\<close>

datatype error =
    Message string
  | Wrapped string error
  | ErrSyntax
  | ErrRange
  | External string

type_synonym uint64 = "64 word"
type_synonym int64 = "64 word"
type_synonym uint16 = "16 word"

text \<open>
  \<^verbatim>\<open>strconv.ParseUint(s, 10, 64)\<close>: no sign, no underscore, at least one digit; the
  digits are consumed left to right and the first offending byte decides the error.
\<close>

definition is_digit :: "char \<Rightarrow> bool" where
  "is_digit c = ((48::nat) \<le> of_char c \<and> (of_char c :: nat) \<le> 57)"

definition digit_value :: "char \<Rightarrow> nat" where
  "digit_value c = (of_char c :: nat) - 48"

fun parse_digits :: "nat \<Rightarrow> string \<Rightarrow> error + nat" where
  "parse_digits n [] = Inr n"
| "parse_digits n (c # cs) =
     (if \<not> is_digit c then Inl ErrSyntax
      else if 2 ^ 64 \<le> n * 10 + digit_value c then Inl ErrRange
      else parse_digits (n * 10 + digit_value c) cs)"

definition ParseUint :: "string \<Rightarrow> error + nat" where
  "ParseUint s = (if s = [] then Inl ErrSyntax else parse_digits 0 s)"

text \<open>
  \<^verbatim>\<open>strconv.ParseInt(s, 10, 64)\<close>: an optional sign, then \<^verbatim>\<open>ParseUint\<close>, then the
  signed range check. \<^verbatim>\<open>strconv.Atoi\<close> on a 64-bit platform is the same function.
\<close>

definition ParseInt :: "string \<Rightarrow> error + int" where
  "ParseInt s =
     (case s of
        [] \<Rightarrow> Inl ErrSyntax
      | c # cs \<Rightarrow>
          (let neg = (c = CHR ''-'');
               body = (if c = CHR ''+'' \<or> c = CHR ''-'' then cs else s)
           in case ParseUint body of
                Inl e \<Rightarrow> Inl e
              | Inr un \<Rightarrow>
                  if \<not> neg \<and> 2 ^ 63 \<le> un then Inl ErrRange
                  else if neg \<and> 2 ^ 63 < un then Inl ErrRange
                  else Inr (if neg then - int un else int un)))"

definition Atoi :: "string \<Rightarrow> error + int" where
  "Atoi s = ParseInt s"

text \<open>\<^verbatim>\<open>strconv.FormatInt(n, 10)\<close>.\<close>

fun nat_digits :: "nat \<Rightarrow> string" where
  "nat_digits n =
     (if n < 10 then [char_of (48 + n)]
      else nat_digits (n div 10) @ [char_of (48 + n mod 10)])"

declare nat_digits.simps [simp del]

definition FormatInt :: "int \<Rightarrow> string" where
  "FormatInt n = (if n < 0 then CHR ''-'' # nat_digits (nat (- n)) else nat_digits (nat n))"

section \<open>Time\<close>

text \<open>
  A \<^verbatim>\<open>time.Time\<close> is kept as its wall-clock reading, the way the \<^verbatim>\<open>time\<close> package
  compares a time that carries no monotonic reading: the seconds since January 1 of year 1
  (an \<^verbatim>\<open>int64\<close>) and the nanoseconds within that second. Arithmetic on the seconds is
  that of \<^verbatim>\<open>int64\<close>: \<open>wrap64\<close> is the value a sum or difference wraps around to.

  \<^verbatim>\<open>time.Unix(sec, 0)\<close> adds the seconds between year 1 and 1970 to \<^verbatim>\<open>sec\<close> (and wraps
  when the sum leaves the range), \<^verbatim>\<open>t.Unix()\<close> subtracts them again, \<^verbatim>\<open>t.Add(d)\<close>
  moves the reading by a duration in nanoseconds, the seconds stopping at the ends of the
  range instead of wrapping, and \<^verbatim>\<open>t.After(u)\<close> compares seconds first and nanoseconds
  second.
\<close>

definition wrap64 :: "int \<Rightarrow> int" where
  "wrap64 x = (x + 2 ^ 63) mod 2 ^ 64 - 2 ^ 63"

record Time =
  wall_sec :: int
  wall_nsec :: int

definition Second :: int where
  "Second = 1000000000"

definition unixToInternal :: int where
  "unixToInternal = 62135596800"

definition time_Unix :: "int \<Rightarrow> Time" where
  "time_Unix sec = \<lparr>wall_sec = wrap64 (sec + unixToInternal), wall_nsec = 0\<rparr>"

definition Unix :: "Time \<Rightarrow> int" where
  "Unix t = wrap64 (wall_sec t - unixToInternal)"

definition addSec :: "int \<Rightarrow> int \<Rightarrow> int" where
  "addSec s d =
     (let sum = wrap64 (s + d)
      in if (s < sum) = (0 < d) then sum
         else if 0 < d then 2 ^ 63 - 1
         else - (2 ^ 63 - 1))"

definition Add :: "Time \<Rightarrow> int \<Rightarrow> Time" where
  "Add t d =
     (let dsec = d sdiv Second;
          nsec = wall_nsec t + d smod Second
      in if Second \<le> nsec
         then \<lparr>wall_sec = addSec (wall_sec t) (dsec + 1), wall_nsec = nsec - Second\<rparr>
         else if nsec < 0
         then \<lparr>wall_sec = addSec (wall_sec t) (dsec - 1), wall_nsec = nsec + Second\<rparr>
         else \<lparr>wall_sec = addSec (wall_sec t) dsec, wall_nsec = nsec\<rparr>)"

definition After :: "Time \<Rightarrow> Time \<Rightarrow> bool" where
  "After t u =
     (wall_sec u < wall_sec t \<or> (wall_sec t = wall_sec u \<and> wall_nsec u < wall_nsec t))"

section \<open>Session, config store and the outside world\<close>

text \<open>\<^verbatim>\<open>oauth2.Token\<close>, with the three fields the service reads and writes.\<close>

record token =
  AccessToken :: string
  RefreshToken :: string
  Expiry :: Time

definition accessTokenKey :: string where
  "accessTokenKey = ''AlbyOAuthAccessToken''"

definition accessTokenExpiryKey :: string where
  "accessTokenExpiryKey = ''AlbyOAuthAccessTokenExpiry''"

definition refreshTokenKey :: string where
  "refreshTokenKey = ''AlbyOAuthTokenSourceToken''"

definition userIdentifierKey :: string where
  "userIdentifierKey = ''AlbyUserIdentifier''"

definition lightningAddressKey :: string where
  "lightningAddressKey = ''AlbyLightningAddress''"

definition ALBY_ACCOUNT_APP_NAME :: string where
  "ALBY_ACCOUNT_APP_NAME = ''getalby.com''"

text \<open>
  Modelled from the spec: the config store, of which the repository holds only the calls.
  It is a key/value collaborator: \<open>Get\<close> answers with the stored string (the empty string
  for a key never written) or with an error, \<open>SetUpdate\<close> stores a string under a key.
\<close>

type_synonym config = "string \<Rightarrow> error + string"

definition cfg_Get :: "config \<Rightarrow> string \<Rightarrow> error + string" where
  "cfg_Get c k = c k"

definition cfg_SetUpdate :: "config \<Rightarrow> string \<Rightarrow> string \<Rightarrow> config" where
  "cfg_SetUpdate c k v = c(k := Inr v)"

text \<open>Values of Go's \<^verbatim>\<open>interface{}\<close>, as far as \<^verbatim>\<open>encoding/json\<close> tells them apart;
  \<open>GUnsupported\<close> is a value the encoder refuses (a channel, a function, a NaN).\<close>

datatype gvalue =
    GNil
  | GBool bool
  | GNumber rat
  | GString string
  | GList "gvalue list"
  | GMap "(string \<times> gvalue) list"
  | GUnsupported

text \<open>The request bodies the service builds, one constructor for each request struct.\<close>

datatype payload =
    NoBody
  | CreateNWCNodeRequest string
  | AutoChannelRequest string bool
  | ChannelsBackup string string
  | EventWithPropertiesMap string "(string \<times> gvalue) list"
  | PayRequest string

record http_request =
  Method :: string
  URL :: string
  Headers :: "(string \<times> string) list"
  Bearer :: "token option"
  Timeout :: int
  Body :: payload

record http_response =
  StatusCode :: int
  ResponseBody :: "error + string"

text \<open>
  Modelled from the spec: the identity the provider returns (\<^verbatim>\<open>AlbyMe\<close>, of which the
  service reads the identifier and the lightning address) and the local connection record
  (\<^verbatim>\<open>db.App\<close>: name, connection key, budget, renewal period, scopes). Both are declared
  outside the file at hand.
\<close>

record AlbyMe =
  Identifier :: string
  LightningAddress :: string

record app =
  Name :: string
  AppPubkey :: string
  MaxAmount :: uint64
  BudgetRenewal :: string
  Scopes :: "string list"

text \<open>
  Modelled from the spec: events and transactions, declared outside the file at hand. An
  event is a name with properties. Of \<^verbatim>\<open>db.Transaction\<close> the service reads four fields
  (payment hash, creation time, settlement time, failure reason); all its other columns
  are kept together in \<open>OtherColumns\<close>. \<open>SettledAt\<close> is a pointer, \<open>None\<close> when nil. An
  event's \<^verbatim>\<open>Properties\<close> is an \<^verbatim>\<open>interface{}\<close>: nil, a pointer to a transaction, a
  pointer to a channel backup event (whose channel list is kept as what the JSON encoder
  makes of it), or any other value. A pointer is \<open>None\<close> when it is a typed nil.
\<close>

record transaction =
  PaymentHash :: string
  CreatedAt :: Time
  SettledAt :: "Time option"
  FailureReason :: string
  OtherColumns :: "(string \<times> gvalue) list"

datatype properties =
    NilProperties
  | TransactionPtr "transaction option"
  | ChannelBackupEventPtr "(error + string) option"
  | OtherProperties gvalue

text \<open>
  The three reduced property structs that \<^verbatim>\<open>ConsumeEvent\<close> declares, next to properties
  passed through as they came.
\<close>

datatype event_properties =
    Original properties
  | paymentReceivedEventProperties string
  | paymentSentEventProperties string uint64
  | paymentFailedEventProperties string string

record event =
  Event :: string
  Properties :: event_properties

text \<open>The LSP's answer as \<^verbatim>\<open>requestAutoChannel\<close> declares it (the payment, when present,
  is the invoice and the fee text of its \<^verbatim>\<open>bolt11\<close> part).\<close>

record autoChannelResponse =
  LspBalanceSat :: string
  Payment :: "(string \<times> string) option"

text \<open>Modelled from the spec: the result \<open>{invoice, fee, channelSize}\<close> handed to the
  caller, declared outside the file at hand.\<close>

record AutoChannelResponse =
  Invoice :: string
  Fee :: uint64
  ChannelSize :: uint64

text \<open>
  What the service does to the outside, in the order it does it: error-level log lines,
  the two OAuth calls, HTTP requests handed to the client, the call that connects the
  node to a peer, and the invoice asked of the transactions service, with its amount in
  millisatoshis.
\<close>

datatype effect =
    LogError string
  | OAuthExchange string
  | OAuthTokenSource token
  | HttpDo http_request
  | LnConnectPeer string string uint16
  | TxMakeInvoice int64

record world =
  cfg :: config
  apps :: "app list"
  trace :: "effect list"

text \<open>
  The collaborators, as the answers they give during one operation: the clock, the
  environment settings, the OAuth library, the HTTP transport, the JSON and bolt11
  decoders, the database, the node, the key store and the transactions service. None of
  them is code of this service; each is an input of the model. So is the choice the Go
  compiler makes for each of the two \<^verbatim>\<open>x - y*z\<close> in the drain formula: the language
  lets it fuse the product and the difference into one operation that rounds once
  (\<open>fuse_first\<close>, \<open>fuse_second\<close>).
\<close>

record env =
  now :: Time
  AlbyAPIURL :: string
  LogEvents :: bool
  AutoLinkAlbyAccount :: bool
  version_Tag :: string
  NostrPublicKey :: string
  NOTIFICATIONS_SCOPE :: string
  BUDGET_RENEWAL_MONTHLY :: string
  oauth_Exchange :: "string \<Rightarrow> error + token"
  oauth_Token :: "token \<Rightarrow> error + token"
  http_NewRequest_error :: "string \<Rightarrow> string \<Rightarrow> error option"
  transport :: "http_request \<Rightarrow> error + http_response"
  decode_AlbyMe :: "error + string \<Rightarrow> error + AlbyMe"
  decode_CreateNWCNodeResponse :: "error + string \<Rightarrow> error + string"
  db_Delete_error :: "error option"
  db_CreateApp_error :: "app \<Rightarrow> error option"
  RequestMethodsToScopes :: "string list \<Rightarrow> error + string list"
  ln_GetSupportedNIP47Methods :: "string list"
  ln_GetSupportedNIP47NotificationTypes :: "string list"
  ln_GetInfo :: "error + string \<times> string"
  ln_ConnectPeer :: "string \<Rightarrow> string \<Rightarrow> uint16 \<Rightarrow> error option"
  AesGcmEncrypt :: "string \<Rightarrow> string \<Rightarrow> error + string"
  json_roundtrip :: "properties \<Rightarrow> error + (error + (string \<times> gvalue) list option)"
  unmarshal_autoChannelResponse :: "string \<Rightarrow> error + autoChannelResponse"
  unmarshal_lsps1LSPInfo :: "string \<Rightarrow> error + string list"
  Decodepay :: "string \<Rightarrow> error + int64"
  decode_AlbyBalance :: "error + string \<Rightarrow> error + int64"
  decode_ErrorResponse :: "error + string \<Rightarrow> error + string"
  decode_PayResponse :: "error + string \<Rightarrow> error option"
  MakeInvoice :: "int64 \<Rightarrow> error + string"
  fuse_first :: bool
  fuse_second :: bool

definition emit :: "effect \<Rightarrow> world \<Rightarrow> world" where
  "emit x w = w\<lparr>trace := trace w @ [x]\<rparr>"

definition logError :: "string \<Rightarrow> world \<Rightarrow> world" where
  "logError msg w = emit (LogError msg) w"

definition SetUpdate :: "string \<Rightarrow> string \<Rightarrow> world \<Rightarrow> world" where
  "SetUpdate k v w = w\<lparr>cfg := cfg_SetUpdate (cfg w) k v\<rparr>"

section \<open>OAuth token cache\<close>

definition saveToken :: "token \<Rightarrow> world \<Rightarrow> world" where
  "saveToken t w =
     SetUpdate refreshTokenKey (RefreshToken t)
       (SetUpdate accessTokenKey (AccessToken t)
         (SetUpdate accessTokenExpiryKey (FormatInt (Unix (Expiry t))) w))"

text \<open>
  \<^verbatim>\<open>fetchUserToken\<close>. The result is \<open>Inr None\<close> for Go's \<^verbatim>\<open>(nil, nil)\<close>. The call
  \<^verbatim>\<open>svc.oauthConf.TokenSource(ctx, currentToken).Token()\<close> is where a session gets
  refreshed: it is recorded in the trace and answered by \<open>oauth_Token\<close>, the OAuth
  library's token source, which decides by itself whether it exchanges the refresh token
  or hands the token back.
\<close>

definition fetchUserToken :: "env \<Rightarrow> world \<Rightarrow> (error + token option) \<times> world" where
  "fetchUserToken e w =
     (case cfg_Get (cfg w) accessTokenKey of
        Inl err \<Rightarrow> (Inl err, w)
      | Inr accessToken \<Rightarrow>
          if accessToken = [] then (Inr None, w)
          else
            (case cfg_Get (cfg w) accessTokenExpiryKey of
               Inl err \<Rightarrow> (Inl err, w)
             | Inr expiry \<Rightarrow>
                 if expiry = [] then (Inr None, w)
                 else
                   (case ParseInt expiry of
                      Inl err \<Rightarrow> (Inl err, w)
                    | Inr expiry64 \<Rightarrow>
                        (case cfg_Get (cfg w) refreshTokenKey of
                           Inl err \<Rightarrow> (Inl err, w)
                         | Inr refreshToken \<Rightarrow>
                             if refreshToken = [] then (Inr None, w)
                             else
                               (let currentToken =
                                      \<lparr>AccessToken = accessToken,
                                       RefreshToken = refreshToken,
                                       Expiry = time_Unix expiry64\<rparr>
                                in if After (Expiry currentToken) (Add (now e) (20 * Second))
                                   then (Inr (Some currentToken), w)
                                   else
                                     (let w1 = emit (OAuthTokenSource currentToken) w
                                      in case oauth_Token e currentToken of
                                           Inl err \<Rightarrow>
                                             (Inl err,
                                              logError ''Failed to refresh existing token'' w1)
                                         | Inr newToken \<Rightarrow>
                                             (Inr (Some newToken), saveToken newToken w1)))))))"

definition IsConnected :: "env \<Rightarrow> world \<Rightarrow> bool \<times> world" where
  "IsConnected e w =
     (case fetchUserToken e w of
        (Inl err, w1) \<Rightarrow> (False, logError ''Failed to check fetch token'' w1)
      | (Inr token, w1) \<Rightarrow> (token \<noteq> None, w1))"

section \<open>HTTP plumbing\<close>

definition NewRequest :: "env \<Rightarrow> string \<Rightarrow> string \<Rightarrow> payload \<Rightarrow> error + http_request" where
  "NewRequest e m u b =
     (case http_NewRequest_error e m u of
        Some err \<Rightarrow> Inl err
      | None \<Rightarrow>
          Inr \<lparr>Method = m, URL = u, Headers = [], Bearer = None, Timeout = 0, Body = b\<rparr>)"

definition header_Set :: "string \<Rightarrow> string \<Rightarrow> (string \<times> string) list \<Rightarrow> (string \<times> string) list" where
  "header_Set k v hs = filter (\<lambda>h. fst h \<noteq> k) hs @ [(k, v)]"

definition setDefaultRequestHeaders :: "env \<Rightarrow> http_request \<Rightarrow> http_request" where
  "setDefaultRequestHeaders e req =
     req\<lparr>Headers :=
           header_Set ''User-Agent'' (''AlbyHub/'' @ version_Tag e)
             (header_Set ''Content-Type'' ''application/json'' (Headers req))\<rparr>"

text \<open>
  \<^verbatim>\<open>svc.oauthConf.Client(ctx, token)\<close> followed by \<^verbatim>\<open>client.Do(req)\<close>: the request goes out
  with the token the client was built from (\<open>None\<close> for a nil token) and with the client's
  timeout (0 when the code sets none).
\<close>

definition client_Do ::
    "env \<Rightarrow> token option \<Rightarrow> int \<Rightarrow> http_request \<Rightarrow> world \<Rightarrow> (error + http_response) \<times> world" where
  "client_Do e token timeout req w =
     (let sent = req\<lparr>Bearer := token, Timeout := timeout\<rparr>
      in (transport e sent, emit (HttpDo sent) w))"

section \<open>Identity\<close>

definition GetMe :: "env \<Rightarrow> world \<Rightarrow> (error + AlbyMe) \<times> world" where
  "GetMe e w =
     (case fetchUserToken e w of
        (Inl err, w1) \<Rightarrow> (Inl err, logError ''Failed to fetch user token'' w1)
      | (Inr token, w1) \<Rightarrow>
          (case NewRequest e ''GET'' (AlbyAPIURL e @ ''/internal/users'') NoBody of
             Inl err \<Rightarrow> (Inl err, logError ''Error creating request /me'' w1)
           | Inr req \<Rightarrow>
               (case client_Do e token 0 (setDefaultRequestHeaders e req) w1 of
                  (Inl err, w2) \<Rightarrow> (Inl err, logError ''Failed to fetch /me'' w2)
                | (Inr res, w2) \<Rightarrow>
                    (case decode_AlbyMe e (ResponseBody res) of
                       Inl err \<Rightarrow> (Inl err, logError ''Failed to decode API response'' w2)
                     | Inr me \<Rightarrow>
                         (Inr me, SetUpdate lightningAddressKey (LightningAddress me) w2)))))"

definition GetUserIdentifier :: "world \<Rightarrow> (error + string) \<times> world" where
  "GetUserIdentifier w =
     (case cfg_Get (cfg w) userIdentifierKey of
        Inl err \<Rightarrow>
          (Inl err, logError ''Failed to fetch user identifier from user configs'' w)
      | Inr userIdentifier \<Rightarrow> (Inr userIdentifier, w))"

section \<open>Shared wallet\<close>

text \<open>
  Modelled from the spec: the balance the provider reports (\<^verbatim>\<open>AlbyBalance\<close>, declared
  outside the file at hand), of which the service reads the custodial balance in satoshis,
  an \<^verbatim>\<open>int64\<close>.
\<close>

definition GetBalance :: "env \<Rightarrow> world \<Rightarrow> (error + int64) \<times> world" where
  "GetBalance e w =
     (case fetchUserToken e w of
        (Inl err, w1) \<Rightarrow> (Inl err, logError ''Failed to fetch user token'' w1)
      | (Inr token, w1) \<Rightarrow>
          (case NewRequest e ''GET'' (AlbyAPIURL e @ ''/internal/lndhub/balance'') NoBody of
             Inl err \<Rightarrow>
               (Inl err, logError ''Error creating request to balance endpoint'' w1)
           | Inr req \<Rightarrow>
               (case client_Do e token 0 (setDefaultRequestHeaders e req) w1 of
                  (Inl err, w2) \<Rightarrow> (Inl err, logError ''Failed to fetch balance endpoint'' w2)
                | (Inr res, w2) \<Rightarrow>
                    (case decode_AlbyBalance e (ResponseBody res) of
                       Inl err \<Rightarrow> (Inl err, logError ''Failed to decode API response'' w2)
                     | Inr balance \<Rightarrow> (Inr balance, w2)))))"

text \<open>
  \<^verbatim>\<open>SendPayment\<close>. Encoding the request struct, a single string, cannot fail. A status
  of 300 or more is answered with the message of the provider's error response.
\<close>

definition SendPayment :: "env \<Rightarrow> string \<Rightarrow> world \<Rightarrow> error option \<times> world" where
  "SendPayment e invoice w =
     (case fetchUserToken e w of
        (Inl err, w1) \<Rightarrow> (Some err, logError ''Failed to fetch user token'' w1)
      | (Inr token, w1) \<Rightarrow>
          (case NewRequest e ''POST'' (AlbyAPIURL e @ ''/internal/lndhub/bolt11'')
                  (PayRequest invoice) of
             Inl err \<Rightarrow> (Some err, logError ''Error creating request bolt11 endpoint'' w1)
           | Inr req \<Rightarrow>
               (case client_Do e token 0 (setDefaultRequestHeaders e req) w1 of
                  (Inl err, w2) \<Rightarrow> (Some err, logError ''Failed to pay invoice'' w2)
                | (Inr resp, w2) \<Rightarrow>
                    if 300 \<le> StatusCode resp
                    then
                      (case decode_ErrorResponse e (ResponseBody resp) of
                         Inl err \<Rightarrow>
                           (Some err,
                            logError ''Failed to decode payment error response payload'' w2)
                       | Inr message \<Rightarrow> (Some (Message message), logError ''Payment failed'' w2))
                    else
                      (case decode_PayResponse e (ResponseBody resp) of
                         Some err \<Rightarrow> (Some err, logError ''Failed to decode response payload'' w2)
                       | None \<Rightarrow> (None, w2)))))"

text \<open>
  The arithmetic of the drain formula is that of \<^verbatim>\<open>float64\<close>. A finite \<^verbatim>\<open>float64\<close> is
  an integer of at most 53 bits times a power of two, and every operation yields the
  \<^verbatim>\<open>float64\<close> nearest to the exact result, the one with the even integer when two are
  equally near. \<open>bit_length\<close> is \<^verbatim>\<open>bits.Len\<close>; \<open>round_half_even n d\<close> is the integer
  nearest to \<open>n / d\<close>; \<open>float64_round\<close> rounds an integer to 53 significant bits. Rounding
  to significant bits does not depend on the unit, so the same function rounds a value
  that is counted in units of \<open>2 ^ - 59\<close>. The exponent range of \<^verbatim>\<open>float64\<close> is not
  modelled: the values of the formula lie between \<open>2 ^ - 59\<close> and \<open>2 ^ 64\<close>.
\<close>

fun bit_length :: "nat \<Rightarrow> nat" where
  "bit_length n = (if n = 0 then 0 else Suc (bit_length (n div 2)))"

declare bit_length.simps [simp del]

definition round_half_even :: "int \<Rightarrow> int \<Rightarrow> int" where
  "round_half_even n d =
     (let q = n div d; r = n mod d
      in if 2 * r < d \<or> (2 * r = d \<and> even q) then q else q + 1)"

definition float64_round :: "int \<Rightarrow> int" where
  "float64_round x =
     (let l = bit_length (nat \<bar>x\<bar>)
      in if l \<le> 53 then x
         else round_half_even x (2 ^ (l - 53)) * 2 ^ (l - 53))"

text \<open>
  A constant \<open>num / den\<close> between \<open>2 ^ - 7\<close> and \<open>2 ^ - 6\<close>, as both \<^verbatim>\<open>8.0/1000.0\<close> and
  \<^verbatim>\<open>0.01\<close> are: Go evaluates it exactly and converts it to the nearest \<^verbatim>\<open>float64\<close>, which
  in this range is a multiple of \<open>2 ^ - 59\<close>. The value is given in that unit.
\<close>

definition float64_const :: "int \<Rightarrow> int \<Rightarrow> int" where
  "float64_const num den = round_half_even (num * 2 ^ 59) den"

text \<open>
  The argument of \<^verbatim>\<open>math.Floor\<close> for a balance \<open>b\<close>, in units of \<open>2 ^ - 59\<close>:
  \<^verbatim>\<open>balanceSat - (balanceSat*(8.0/1000.0)) - (balanceSat*0.01)\<close> with
  \<^verbatim>\<open>balanceSat = float64(b)\<close>. The product of an integer and a constant is an integer in
  that unit, so every exact intermediate result is one. A fused subtraction rounds the
  exact difference; an unfused one rounds the product first.
\<close>

definition after_fees :: "bool \<Rightarrow> bool \<Rightarrow> int \<Rightarrow> int" where
  "after_fees fuse1 fuse2 b =
     (let balanceSat = float64_round b;
          fee = balanceSat * float64_const 8 1000;
          rest = float64_round
                   (balanceSat * 2 ^ 59 - (if fuse1 then fee else float64_round fee));
          routing = balanceSat * float64_const 1 100
      in float64_round (rest - (if fuse2 then routing else float64_round routing)))"

text \<open>
  \<^verbatim>\<open>amountSat\<close>: the floor of that value, converted to \<^verbatim>\<open>int64\<close>, minus the reserve of
  10. The floor of a value counted in units of \<open>2 ^ - 59\<close> is its quotient by \<open>2 ^ 59\<close>.
\<close>

definition amountSat :: "bool \<Rightarrow> bool \<Rightarrow> int64 \<Rightarrow> int64" where
  "amountSat fuse1 fuse2 balance =
     word_of_int (after_fees fuse1 fuse2 (sint balance) div 2 ^ 59) - 10"

definition DrainSharedWallet :: "env \<Rightarrow> world \<Rightarrow> error option \<times> world" where
  "DrainSharedWallet e w =
     (case GetBalance e w of
        (Inl err, w1) \<Rightarrow> (Some err, logError ''Failed to fetch shared balance'' w1)
      | (Inr balance, w1) \<Rightarrow>
          if sint (amountSat (fuse_first e) (fuse_second e) balance) < 1
          then (Some (Message ''Not enough balance remaining''), w1)
          else
            (let amount = amountSat (fuse_first e) (fuse_second e) balance * 1000;
                 w2 = emit (TxMakeInvoice amount)
                        (logError ''Draining Alby shared wallet funds'' w1)
             in case MakeInvoice e amount of
                  Inl err \<Rightarrow> (Some err, logError ''Failed to make invoice'' w2)
                | Inr paymentRequest \<Rightarrow>
                    (case SendPayment e paymentRequest w2 of
                       (Some err, w3) \<Rightarrow>
                         (Some err, logError ''Failed to pay invoice from shared node'' w3)
                     | (None, w3) \<Rightarrow> (None, w3))))"

section \<open>Remote node provisioning\<close>

text \<open>
  The three provisioning calls. Each fetches the token first; when that fails the error is
  logged and the function goes on with a nil token. (Encoding the one-string request struct
  cannot fail, so that branch of the source has no counterpart here.)
\<close>

definition createAlbyAccountNWCNode :: "env \<Rightarrow> world \<Rightarrow> (error + string) \<times> world" where
  "createAlbyAccountNWCNode e w =
     (let (token, w1) =
            (case fetchUserToken e w of
               (Inl err, w0) \<Rightarrow> (None, logError ''Failed to fetch user token'' w0)
             | (Inr t, w0) \<Rightarrow> (t, w0))
      in case NewRequest e ''POST'' (AlbyAPIURL e @ ''/internal/nwcs'')
                (CreateNWCNodeRequest (NostrPublicKey e)) of
           Inl err \<Rightarrow> (Inl err, logError ''Error creating request /internal/nwcs'' w1)
         | Inr req \<Rightarrow>
             (case client_Do e token 0 (setDefaultRequestHeaders e req) w1 of
                (Inl err, w2) \<Rightarrow>
                  (Inl err, logError ''Failed to send request to /internal/nwcs'' w2)
              | (Inr resp, w2) \<Rightarrow>
                  if 300 \<le> StatusCode resp
                  then (Inl (Message ''request to /internal/nwcs returned non-success status''),
                        logError ''Request to /internal/nwcs returned non-success status'' w2)
                  else
                    (case decode_CreateNWCNodeResponse e (ResponseBody resp) of
                       Inl err \<Rightarrow> (Inl err, logError ''Failed to decode response payload'' w2)
                     | Inr pubkey \<Rightarrow> (Inr pubkey, w2))))"

definition destroyAlbyAccountNWCNode :: "env \<Rightarrow> world \<Rightarrow> error option \<times> world" where
  "destroyAlbyAccountNWCNode e w =
     (let (token, w1) =
            (case fetchUserToken e w of
               (Inl err, w0) \<Rightarrow> (None, logError ''Failed to fetch user token'' w0)
             | (Inr t, w0) \<Rightarrow> (t, w0))
      in case NewRequest e ''DELETE'' (AlbyAPIURL e @ ''/internal/nwcs'') NoBody of
           Inl err \<Rightarrow> (Some err, logError ''Error creating request /internal/nwcs'' w1)
         | Inr req \<Rightarrow>
             (case client_Do e token 0 (setDefaultRequestHeaders e req) w1 of
                (Inl err, w2) \<Rightarrow>
                  (Some err, logError ''Failed to send request to /internal/nwcs'' w2)
              | (Inr resp, w2) \<Rightarrow>
                  if 300 \<le> StatusCode resp
                  then (Some (Message ''request to /internal/nwcs returned non-success status''),
                        logError ''Request to /internal/nwcs returned non-success status'' w2)
                  else (None, w2)))"

definition activateAlbyAccountNWCNode :: "env \<Rightarrow> world \<Rightarrow> error option \<times> world" where
  "activateAlbyAccountNWCNode e w =
     (let (token, w1) =
            (case fetchUserToken e w of
               (Inl err, w0) \<Rightarrow> (None, logError ''Failed to fetch user token'' w0)
             | (Inr t, w0) \<Rightarrow> (t, w0))
      in case NewRequest e ''PUT'' (AlbyAPIURL e @ ''/internal/nwcs/activate'') NoBody of
           Inl err \<Rightarrow> (Some err, logError ''Error creating request /internal/nwcs/activate'' w1)
         | Inr req \<Rightarrow>
             (case client_Do e token 0 (setDefaultRequestHeaders e req) w1 of
                (Inl err, w2) \<Rightarrow>
                  (Some err, logError ''Failed to send request to /internal/nwcs/activate'' w2)
              | (Inr resp, w2) \<Rightarrow>
                  if 300 \<le> StatusCode resp
                  then (Some (Message
                                ''request to /internal/nwcs/activate returned non-success status''),
                        logError
                          ''Request to /internal/nwcs/activate returned non-success status'' w2)
                  else (None, w2)))"

section \<open>Linking and unlinking\<close>

definition deleteAlbyAccountApps :: "env \<Rightarrow> world \<Rightarrow> world" where
  "deleteAlbyAccountApps e w =
     (case db_Delete_error e of
        Some err \<Rightarrow> logError ''Failed to delete Alby Account apps'' w
      | None \<Rightarrow> w\<lparr>apps := filter (\<lambda>a. Name a \<noteq> ALBY_ACCOUNT_APP_NAME) (apps w)\<rparr>)"

definition LinkAccount :: "env \<Rightarrow> uint64 \<Rightarrow> string \<Rightarrow> world \<Rightarrow> error option \<times> world" where
  "LinkAccount e budget renewal w =
     (case createAlbyAccountNWCNode e (deleteAlbyAccountApps e w) of
        (Inl err, w1) \<Rightarrow> (Some err, logError ''Failed to create alby account nwc node'' w1)
      | (Inr connectionPubkey, w1) \<Rightarrow>
          (case RequestMethodsToScopes e (ln_GetSupportedNIP47Methods e) of
             Inl err \<Rightarrow>
               (Some err, logError ''Failed to get scopes from LNClient request methods'' w1)
           | Inr scopes0 \<Rightarrow>
               (let scopes =
                      (if 0 < length (ln_GetSupportedNIP47NotificationTypes e)
                       then scopes0 @ [NOTIFICATIONS_SCOPE e] else scopes0);
                    newApp =
                      \<lparr>Name = ALBY_ACCOUNT_APP_NAME, AppPubkey = connectionPubkey,
                       MaxAmount = budget, BudgetRenewal = renewal, Scopes = scopes\<rparr>
                in case db_CreateApp_error e newApp of
                     Some err \<Rightarrow> (Some err, logError ''Failed to create app connection'' w1)
                   | None \<Rightarrow>
                       (case activateAlbyAccountNWCNode e (w1\<lparr>apps := apps w1 @ [newApp]\<rparr>) of
                          (Some err, w2) \<Rightarrow>
                            (Some err, logError ''Failed to activate alby account nwc node'' w2)
                        | (None, w2) \<Rightarrow> (None, w2)))))"

definition UnlinkAccount :: "env \<Rightarrow> world \<Rightarrow> error option \<times> world" where
  "UnlinkAccount e w =
     (let w1 =
            (case destroyAlbyAccountNWCNode e w of
               (Some err, w0) \<Rightarrow> logError ''Failed to destroy Alby Account NWC node'' w0
             | (None, w0) \<Rightarrow> w0);
          w2 = deleteAlbyAccountApps e w1
      in (None,
          SetUpdate lightningAddressKey []
            (SetUpdate refreshTokenKey []
              (SetUpdate accessTokenExpiryKey []
                (SetUpdate accessTokenKey []
                  (SetUpdate userIdentifierKey [] w2))))))"

definition cross_account_error :: error where
  "cross_account_error =
     Message (''Alby Hub is connected to a different alby account. '' @
              ''Please log out of your Alby Account at getalby.com and try again.'')"

definition CallbackHandler :: "env \<Rightarrow> string \<Rightarrow> world \<Rightarrow> error option \<times> world" where
  "CallbackHandler e code w =
     (let w0 = emit (OAuthExchange code) w
      in case oauth_Exchange e code of
           Inl err \<Rightarrow> (Some err, logError ''Failed to exchange token'' w0)
         | Inr token \<Rightarrow>
             (case GetMe e (saveToken token w0) of
                (Inl err, w1) \<Rightarrow>
                  (Some err, SetUpdate accessTokenKey [] (logError ''Failed to fetch user me'' w1))
              | (Inr me, w1) \<Rightarrow>
                  (case GetUserIdentifier w1 of
                     (Inl err, w2) \<Rightarrow>
                       (Some err, logError ''Failed to get alby user identifier'' w2)
                   | (Inr existingUserIdentifier, w2) \<Rightarrow>
                       if existingUserIdentifier = []
                       then
                         (let w3 = SetUpdate userIdentifierKey (Identifier me) w2
                          in if AutoLinkAlbyAccount e
                             then
                               (case LinkAccount e 1000000 (BUDGET_RENEWAL_MONTHLY e) w3 of
                                  (Some err, w4) \<Rightarrow>
                                    (None,
                                     logError ''Failed to link account on first auth callback'' w4)
                                | (None, w4) \<Rightarrow> (None, w4))
                             else (None, w3))
                       else if Identifier me \<noteq> existingUserIdentifier
                       then (Some cross_account_error, SetUpdate accessTokenKey [] w2)
                       else (None, w2))))"

section \<open>Telemetry relay\<close>

text \<open>
  Control flow inside \<^verbatim>\<open>ConsumeEvent\<close>: a step goes on with a value, returns from the
  function, or panics with a value that unwinds the stack.
\<close>

datatype 'a flow = Continue 'a | Return | Raise string

datatype completion = Normal | Panic string

definition nil_pointer_dereference :: string where
  "nil_pointer_dereference = ''runtime error: invalid memory address or nil pointer dereference''"

definition interface_conversion :: string where
  "interface_conversion = ''interface conversion: interface {} is not *db.Transaction''"

definition HasPrefix :: "string \<Rightarrow> string \<Rightarrow> bool" where
  "HasPrefix s p = (take (length p) s = p)"

text \<open>The type assertion \<^verbatim>\<open>event.Properties.(*db.Transaction)\<close>; \<open>None\<close> when it fails.\<close>

definition as_Transaction :: "event_properties \<Rightarrow> transaction option option" where
  "as_Transaction p = (case p of Original (TransactionPtr ptr) \<Rightarrow> Some ptr | _ \<Rightarrow> None)"

definition rewrite_received :: "event \<Rightarrow> event flow" where
  "rewrite_received ev =
     (if Event ev = ''nwc_payment_received''
      then
        (case as_Transaction (Properties ev) of
           None \<Rightarrow> Raise interface_conversion
         | Some None \<Rightarrow> Raise nil_pointer_dereference
         | Some (Some tx) \<Rightarrow>
             Continue \<lparr>Event = Event ev,
                       Properties = paymentReceivedEventProperties (PaymentHash tx)\<rparr>)
      else Continue ev)"

text \<open>\<^verbatim>\<open>uint64(SettledAt.Unix() - CreatedAt.Unix())\<close>: a difference of two \<^verbatim>\<open>int64\<close>,
  read as unsigned.\<close>

definition duration_seconds :: "Time \<Rightarrow> Time \<Rightarrow> uint64" where
  "duration_seconds settled created = word_of_int (Unix settled) - word_of_int (Unix created)"

definition rewrite_sent :: "event \<Rightarrow> event flow" where
  "rewrite_sent ev =
     (if Event ev = ''nwc_payment_sent''
      then
        (case as_Transaction (Properties ev) of
           None \<Rightarrow> Raise interface_conversion
         | Some None \<Rightarrow> Raise nil_pointer_dereference
         | Some (Some tx) \<Rightarrow>
             (case SettledAt tx of
                None \<Rightarrow> Raise nil_pointer_dereference
              | Some settled \<Rightarrow>
                  Continue \<lparr>Event = Event ev,
                            Properties =
                              paymentSentEventProperties (PaymentHash tx)
                                (duration_seconds settled (CreatedAt tx))\<rparr>))
      else Continue ev)"

definition rewrite_failed :: "event \<Rightarrow> world \<Rightarrow> event flow \<times> world" where
  "rewrite_failed ev w =
     (if Event ev = ''nwc_payment_failed''
      then
        (case as_Transaction (Properties ev) of
           None \<Rightarrow> (Return, logError ''Failed to cast event'' w)
         | Some None \<Rightarrow> (Raise nil_pointer_dereference, w)
         | Some (Some tx) \<Rightarrow>
             (Continue \<lparr>Event = Event ev,
                        Properties =
                          paymentFailedEventProperties (PaymentHash tx) (FailureReason tx)\<rparr>,
              w))
      else (Continue ev, w))"

text \<open>
  A \<^verbatim>\<open>uint64\<close> written as a JSON number and read back into an \<^verbatim>\<open>interface{}\<close> is a
  \<^verbatim>\<open>float64\<close>: unchanged below \<open>2 ^ 53\<close>, rounded to 53 significant bits (ties to
  even) from there on.
\<close>

definition float64_of_uint64 :: "nat \<Rightarrow> nat" where
  "float64_of_uint64 n =
     (if n < 2 ^ 53 then n
      else
        (let k = length (takeWhile (\<lambda>j. 2 ^ 53 \<le> n div 2 ^ j) [0..<12]);
             q = n div 2 ^ k;
             r = n mod 2 ^ k;
             h = 2 ^ (k - 1)
         in (if r < h \<or> (r = h \<and> even q) then q else q + 1) * 2 ^ k))"

text \<open>
  A Go string is a sequence of bytes, and \<^verbatim>\<open>encoding/json\<close> writes it rune by rune.
  \<^verbatim>\<open>utf8.DecodeRuneInString\<close> reads one rune from the head of a string whose first byte
  is not ASCII: \<open>Some n\<close> when the head is a well-formed encoding of \<open>n\<close> bytes, \<open>None\<close>
  when it is not (the decoder then answers \<^verbatim>\<open>RuneError\<close> with width 1). The first byte
  fixes the width and the range of the second byte; the other bytes are continuation bytes.
\<close>

definition byte :: "char \<Rightarrow> nat" where
  "byte c = of_char c"

definition DecodeRuneInString :: "string \<Rightarrow> nat option" where
  "DecodeRuneInString s =
     (let s0 = byte (s ! 0);
          sz = (if 194 \<le> s0 \<and> s0 \<le> 223 then 2
                else if 224 \<le> s0 \<and> s0 \<le> 239 then 3
                else if 240 \<le> s0 \<and> s0 \<le> 244 then 4
                else 0);
          lo = (if s0 = 224 then 160 else if s0 = 240 then 144 else 128);
          hi = (if s0 = 237 then 159 else if s0 = 244 then 143 else 191)
      in if sz = 0 then None
         else if length s < sz then None
         else if byte (s ! 1) < lo \<or> hi < byte (s ! 1) then None
         else if sz \<le> 2 then Some 2
         else if byte (s ! 2) < 128 \<or> 191 < byte (s ! 2) then None
         else if sz \<le> 3 then Some 3
         else if byte (s ! 3) < 128 \<or> 191 < byte (s ! 3) then None
         else Some 4)"

text \<open>
  A string that is written as JSON and read back: ASCII bytes and well-formed runes come
  back as they were, and every byte at which no well-formed rune starts comes back as the
  replacement character U+FFFD, the three bytes \<open>EF BF BD\<close>. The first argument counts the
  bytes of an accepted rune that are still to be copied.
\<close>

definition replacement_character :: string where
  "replacement_character = [CHR 0xEF, CHR 0xBF, CHR 0xBD]"

fun copy_runes :: "nat \<Rightarrow> string \<Rightarrow> string" where
  "copy_runes k [] = []"
| "copy_runes k (c # cs) =
     (if 0 < k then c # copy_runes (k - 1) cs
      else if byte c < 128 then c # copy_runes 0 cs
      else
        (case DecodeRuneInString (c # cs) of
           None \<Rightarrow> replacement_character @ copy_runes 0 cs
         | Some n \<Rightarrow> c # copy_runes (n - 1) cs))"

definition json_string :: "string \<Rightarrow> string" where
  "json_string s = copy_runes 0 s"

text \<open>A value that is written as JSON, as a reader of the text gets it: every string in it
  and every key of a map is a JSON string.\<close>

fun json_value :: "gvalue \<Rightarrow> gvalue" where
  "json_value (GString s) = GString (json_string s)"
| "json_value (GList xs) = GList (map json_value xs)"
| "json_value (GMap kvs) = GMap (map (\<lambda>kv. (json_string (fst kv), json_value (snd kv))) kvs)"
| "json_value v = v"

text \<open>
  The event is encoded and decoded again into \<^verbatim>\<open>{event, properties: map}\<close>. For the three
  reduced structs the outcome is fixed by their declarations: the strings come back as JSON
  strings and the duration as a \<^verbatim>\<open>float64\<close>. For properties that came from elsewhere it
  is what the JSON library answers (\<open>json_roundtrip\<close>): an encoding error, a decoding error
  (properties that are not a JSON object), a nil map, or a map.
\<close>

definition encode_decode ::
    "env \<Rightarrow> event \<Rightarrow> error + (error + (string \<times> gvalue) list option)" where
  "encode_decode e ev =
     (case Properties ev of
        paymentReceivedEventProperties h \<Rightarrow>
          Inr (Inr (Some [(''payment_hash'', GString (json_string h))]))
      | paymentSentEventProperties h d \<Rightarrow>
          Inr (Inr (Some [(''payment_hash'', GString (json_string h)),
                          (''duration'', GNumber (of_nat (float64_of_uint64 (unat d))))]))
      | paymentFailedEventProperties h r \<Rightarrow>
          Inr (Inr (Some [(''payment_hash'', GString (json_string h)),
                          (''reason'', GString (json_string r))]))
      | Original p \<Rightarrow> json_roundtrip e p)"

text \<open>
  The last \<^verbatim>\<open>json.NewEncoder(body).Encode\<close>: the body of the request is the JSON text of
  the decoded event name and the merged properties, kept here as what a reader of that
  text gets. The entries of the properties stand in the order of the merged map; the
  encoder writes them sorted by key, an order a JSON object does not convey.
\<close>

definition json_Encode :: "string \<Rightarrow> (string \<times> gvalue) list \<Rightarrow> payload" where
  "json_Encode name props =
     EventWithPropertiesMap (json_string name)
       (map (\<lambda>kv. (json_string (fst kv), json_value (snd kv))) props)"

text \<open>
  The loop over \<^verbatim>\<open>globalProperties\<close>. A Go map is kept as the list of its entries in the
  order the loop meets them; a key is present when \<open>map_of\<close> finds it, and a new key is
  added at the end.
\<close>

fun add_global_properties ::
    "(string \<times> gvalue) list \<Rightarrow> (string \<times> gvalue) list \<Rightarrow> world \<Rightarrow> (string \<times> gvalue) list \<times> world" where
  "add_global_properties [] props w = (props, w)"
| "add_global_properties ((k, v) # globals) props w =
     (if map_of props k \<noteq> None
      then add_global_properties globals props
             (logError ''Key already exists in event properties, skipping global property'' w)
      else add_global_properties globals (props @ [(k, v)]) w)"

fun encodable :: "gvalue \<Rightarrow> bool" where
  "encodable GUnsupported = False"
| "encodable (GList xs) = (\<forall>x \<in> set xs. encodable x)"
| "encodable (GMap kvs) = (\<forall>v \<in> snd ` set kvs. encodable v)"
| "encodable _ = True"

definition backupChannels :: "env \<Rightarrow> event \<Rightarrow> world \<Rightarrow> error option flow \<times> world" where
  "backupChannels e ev w =
     (case Properties ev of
        Original (ChannelBackupEventPtr bkpEvent) \<Rightarrow>
          (case fetchUserToken e w of
             (Inl err, w1) \<Rightarrow> (Continue (Some (Wrapped ''failed to fetch user token'' err)), w1)
           | (Inr token, w1) \<Rightarrow>
               (case bkpEvent of
                  None \<Rightarrow> (Raise nil_pointer_dereference, w1)
                | Some (Inl err) \<Rightarrow>
                    (Continue (Some (Wrapped ''failed to encode channels backup data'' err)), w1)
                | Some (Inr channelsData) \<Rightarrow>
                    (case cfg_Get (cfg w1) ''Mnemonic'' of
                       Inl err \<Rightarrow>
                         (Continue (Some (Wrapped ''failed to fetch encryption key'' err)), w1)
                     | Inr encryptedMnemonic \<Rightarrow>
                         (case AesGcmEncrypt e channelsData encryptedMnemonic of
                            Inl err \<Rightarrow>
                              (Continue
                                 (Some (Wrapped ''failed to encrypt channels backup data'' err)),
                               w1)
                          | Inr encrypted \<Rightarrow>
                              (case NewRequest e ''POST'' (AlbyAPIURL e @ ''/internal/backups'')
                                      (ChannelsBackup ''channels'' encrypted) of
                                 Inl err \<Rightarrow>
                                   (Continue (Some (Wrapped ''failed to create request'' err)), w1)
                               | Inr req \<Rightarrow>
                                   (case client_Do e token 0 (setDefaultRequestHeaders e req) w1 of
                                      (Inl err, w2) \<Rightarrow>
                                        (Continue
                                           (Some (Wrapped
                                              ''failed to send request to /internal/backups'' err)),
                                         w2)
                                    | (Inr resp, w2) \<Rightarrow>
                                        if 300 \<le> StatusCode resp
                                        then
                                          (Continue
                                             (Some (Message
                                                (''request to /internal/backups returned '' @
                                                 ''non-success status: '' @
                                                 FormatInt (StatusCode resp)))),
                                           w2)
                                        else (Continue None, w2)))))))
      | _ \<Rightarrow>
          (Continue
             (Some (Message
                (''invalid nwc_backup_channels event properties, '' @
                 ''could not cast to the expected type''))),
           w))"

text \<open>The part of \<^verbatim>\<open>ConsumeEvent\<close> after the rewriting: token, merge, POST.\<close>

definition post_event ::
    "env \<Rightarrow> event \<Rightarrow> (string \<times> gvalue) list \<Rightarrow> world \<Rightarrow> completion \<times> world" where
  "post_event e ev globalProperties w =
     (case fetchUserToken e w of
        (Inl err, w1) \<Rightarrow> (Normal, logError ''Failed to fetch user token'' w1)
      | (Inr token, w1) \<Rightarrow>
          (case encode_decode e ev of
             Inl err \<Rightarrow> (Normal, logError ''Failed to encode request payload'' w1)
           | Inr (Inl err) \<Rightarrow> (Normal, logError ''Failed to decode request payload'' w1)
           | Inr (Inr decoded) \<Rightarrow>
               (let own = (case decoded of None \<Rightarrow> [] | Some m \<Rightarrow> m);
                    (merged, w2) = add_global_properties globalProperties own w1
                in if \<not> (\<forall>v \<in> snd ` set merged. encodable v)
                   then (Normal, logError ''Failed to encode request payload'' w2)
                   else
                     (case NewRequest e ''POST'' (AlbyAPIURL e @ ''/events'')
                             (json_Encode (json_string (Event ev)) merged) of
                        Inl err \<Rightarrow> (Normal, logError ''Error creating request /events'' w2)
                      | Inr req \<Rightarrow>
                          (case client_Do e token 0 (setDefaultRequestHeaders e req) w2 of
                             (Inl err, w3) \<Rightarrow>
                               (Normal, logError ''Failed to send request to /events'' w3)
                           | (Inr resp, w3) \<Rightarrow>
                               if 300 \<le> StatusCode resp
                               then (Normal,
                                     logError
                                       ''Request to /events returned non-success status'' w3)
                               else (Normal, w3))))))"

text \<open>The body of \<^verbatim>\<open>ConsumeEvent\<close>, without its deferred function. The event is a
  pointer: \<open>None\<close> when nil.\<close>

definition ConsumeEvent_body ::
    "env \<Rightarrow> event option \<Rightarrow> (string \<times> gvalue) list \<Rightarrow> world \<Rightarrow> completion \<times> world" where
  "ConsumeEvent_body e event globalProperties w =
     (case cfg_Get (cfg w) accessTokenKey of
        Inl err \<Rightarrow> (Normal, logError ''failed to get access token from config'' w)
      | Inr accessToken \<Rightarrow>
          if accessToken = [] then (Normal, w)
          else if \<not> LogEvents e then (Normal, w)
          else
            (case event of
               None \<Rightarrow> (Panic nil_pointer_dereference, w)
             | Some ev0 \<Rightarrow>
                 if Event ev0 = ''nwc_backup_channels''
                 then
                   (case backupChannels e ev0 w of
                      (Raise v, w1) \<Rightarrow> (Panic v, w1)
                    | (Return, w1) \<Rightarrow> (Normal, w1)
                    | (Continue (Some err), w1) \<Rightarrow>
                        (Normal, logError ''Failed to backup channels'' w1)
                    | (Continue None, w1) \<Rightarrow> (Normal, w1))
                 else if HasPrefix (Event ev0) ''nwc_lnclient_'' then (Normal, w)
                 else
                   (case rewrite_received ev0 of
                      Raise v \<Rightarrow> (Panic v, w)
                    | Return \<Rightarrow> (Normal, w)
                    | Continue ev1 \<Rightarrow>
                        (case rewrite_sent ev1 of
                           Raise v \<Rightarrow> (Panic v, w)
                         | Return \<Rightarrow> (Normal, w)
                         | Continue ev2 \<Rightarrow>
                             (case rewrite_failed ev2 w of
                                (Raise v, w1) \<Rightarrow> (Panic v, w1)
                              | (Return, w1) \<Rightarrow> (Normal, w1)
                              | (Continue ev3, w1) \<Rightarrow>
                                  post_event e ev3 globalProperties w1)))))"

text \<open>The deferred function: a panic that reaches it is recovered and logged.\<close>

definition recover :: "completion \<times> world \<Rightarrow> completion \<times> world" where
  "recover r =
     (case r of
        (Panic v, w) \<Rightarrow> (Normal, logError ''Failed to consume event in alby oauth service'' w)
      | (Normal, w) \<Rightarrow> (Normal, w))"

definition ConsumeEvent ::
    "env \<Rightarrow> event option \<Rightarrow> (string \<times> gvalue) list \<Rightarrow> world \<Rightarrow> completion \<times> world" where
  "ConsumeEvent e event globalProperties w =
     recover (ConsumeEvent_body e event globalProperties w)"

section \<open>Auto-channel negotiation\<close>

text \<open>\<^verbatim>\<open>int64\<close> division truncates towards zero; \<^verbatim>\<open>uint64(x)\<close> of an \<^verbatim>\<open>int64\<close> keeps
  the bits.\<close>

definition int64_div :: "int64 \<Rightarrow> int64 \<Rightarrow> int64" where
  "int64_div a b = word_of_int (sint a sdiv sint b)"

definition fee_mismatch_error :: error where
  "fee_mismatch_error = Message ''invoice amount does not match LSP fee''"

definition requestAutoChannel ::
    "env \<Rightarrow> string \<Rightarrow> string \<Rightarrow> bool \<Rightarrow> world \<Rightarrow> (error + AutoChannelResponse) \<times> world" where
  "requestAutoChannel e url pubkey isPublic w =
     (let (token, w1) =
            (case fetchUserToken e w of
               (Inl err, w0) \<Rightarrow> (None, logError ''Failed to fetch user token'' w0)
             | (Inr t, w0) \<Rightarrow> (t, w0))
      in case NewRequest e ''POST'' url (AutoChannelRequest pubkey isPublic) of
           Inl err \<Rightarrow> (Inl err, logError ''Failed to create auto channel request'' w1)
         | Inr req \<Rightarrow>
             (case client_Do e token (60 * Second) (setDefaultRequestHeaders e req) w1 of
                (Inl err, w2) \<Rightarrow>
                  (Inl err, logError ''Failed to request auto channel invoice'' w2)
              | (Inr res, w2) \<Rightarrow>
                  (case ResponseBody res of
                     Inl err \<Rightarrow>
                       (Inl (Message ''failed to read response body''),
                        logError ''Failed to read response body'' w2)
                   | Inr body \<Rightarrow>
                       if 300 \<le> StatusCode res
                       then
                         (Inl (Message
                                 (''auto channel endpoint returned non-success code: '' @ body)),
                          logError ''auto channel endpoint returned non-success code'' w2)
                       else
                         (case unmarshal_autoChannelResponse e body of
                            Inl err \<Rightarrow>
                              (Inl (Message
                                      (''failed to deserialize json '' @ url @ '' '' @ body)),
                               logError ''Failed to deserialize json'' w2)
                          | Inr newAutoChannelResponse \<Rightarrow>
                              (let checked =
                                     (case Payment newAutoChannelResponse of
                                        None \<Rightarrow> (Inr ([], 0), w2)
                                      | Some (invoice, feeTotalSat) \<Rightarrow>
                                          (case ParseUint feeTotalSat of
                                             Inl err \<Rightarrow>
                                               (Inl (Wrapped ''failed to parse fee'' err),
                                                logError ''Failed to parse fee'' w2)
                                           | Inr fee \<Rightarrow>
                                               (case Decodepay e invoice of
                                                  Inl err \<Rightarrow>
                                                    (Inl err,
                                                     logError
                                                       ''Failed to decode bolt11 invoice'' w2)
                                                | Inr MSatoshi \<Rightarrow>
                                                    if (word_of_nat fee :: uint64) \<noteq>
                                                       int64_div MSatoshi 1000
                                                    then
                                                      (Inl fee_mismatch_error,
                                                       logError
                                                         ''Invoice amount does not match LSP fee''
                                                         w2)
                                                    else
                                                      (Inr (invoice, word_of_nat fee), w2))))
                               in case checked of
                                    (Inl err, w3) \<Rightarrow> (Inl err, w3)
                                  | (Inr (invoice, fee), w3) \<Rightarrow>
                                      (case ParseUint (LspBalanceSat newAutoChannelResponse) of
                                         Inl err \<Rightarrow>
                                           (Inl (Wrapped ''failed to parse lsp balance sat'' err),
                                            logError ''Failed to parse lsp balance sat'' w3)
                                       | Inr channelSize \<Rightarrow>
                                           (Inr \<lparr>Invoice = invoice, Fee = fee,
                                                 ChannelSize = word_of_nat channelSize\<rparr>,
                                            w3)))))))"

text \<open>\<^verbatim>\<open>strings.Contains\<close>.\<close>

fun Contains :: "string \<Rightarrow> string \<Rightarrow> bool" where
  "Contains [] substr = (substr = [])"
| "Contains (c # cs) substr = (take (length substr) (c # cs) = substr \<or> Contains cs substr)"

text \<open>
  The regular expression
  \<^verbatim>\<open>^([0-9a-f]+)@([0-9]+\.[0-9]+\.[0-9]+\.[0-9]+):([0-9]+)$\<close>. Every repeated class
  excludes the character that follows it, so the longest run of the class is the only
  way to match and the match can be read off from left to right. \<open>None\<close> is Go's nil
  result of \<^verbatim>\<open>FindStringSubmatch\<close>; otherwise the three groups.
\<close>

definition is_hex :: "char \<Rightarrow> bool" where
  "is_hex c = (is_digit c \<or> ((97::nat) \<le> of_char c \<and> (of_char c :: nat) \<le> 102))"

definition run_then :: "(char \<Rightarrow> bool) \<Rightarrow> char \<Rightarrow> string \<Rightarrow> (string \<times> string) option" where
  "run_then cls sep s =
     (let run = takeWhile cls s
      in if run = [] then None
         else (case dropWhile cls s of
                 [] \<Rightarrow> None
               | c # rest \<Rightarrow> if c = sep then Some (run, rest) else None))"

definition FindStringSubmatch :: "string \<Rightarrow> (string \<times> string \<times> string) option" where
  "FindStringSubmatch uri =
     (case run_then is_hex (CHR ''@'') uri of
        None \<Rightarrow> None
      | Some (pubkey, r1) \<Rightarrow>
          (case run_then is_digit (CHR ''.'') r1 of
             None \<Rightarrow> None
           | Some (a, r2) \<Rightarrow>
               (case run_then is_digit (CHR ''.'') r2 of
                  None \<Rightarrow> None
                | Some (b, r3) \<Rightarrow>
                    (case run_then is_digit (CHR ''.'') r3 of
                       None \<Rightarrow> None
                     | Some (c, r4) \<Rightarrow>
                         (case run_then is_digit (CHR '':'') r4 of
                            None \<Rightarrow> None
                          | Some (d, r5) \<Rightarrow>
                              if r5 \<noteq> [] \<and> list_all is_digit r5
                              then Some (pubkey, a @ ''.'' @ b @ ''.'' @ c @ ''.'' @ d, r5)
                              else None)))))"

text \<open>
  \<^verbatim>\<open>getLSPInfo\<close> has four results, the last one the error, \<open>None\<close> when nil. Where the
  source returns \<^verbatim>\<open>err\<close>, the model returns what that variable holds at that point:
  after a successful \<^verbatim>\<open>json.Unmarshal\<close> it holds nil.
\<close>

definition getLSPInfo ::
    "env \<Rightarrow> string \<Rightarrow> world \<Rightarrow> (string \<times> string \<times> uint16 \<times> error option) \<times> world" where
  "getLSPInfo e url w =
     (let (token, w1) =
            (case fetchUserToken e w of
               (Inl err, w0) \<Rightarrow> (None, logError ''Failed to fetch user token'' w0)
             | (Inr t, w0) \<Rightarrow> (t, w0))
      in case NewRequest e ''GET'' url NoBody of
           Inl err \<Rightarrow> (([], [], 0, Some err), logError ''Failed to create lsp info request'' w1)
         | Inr req \<Rightarrow>
             (case client_Do e token (60 * Second) (setDefaultRequestHeaders e req) w1 of
                (Inl err, w2) \<Rightarrow>
                  (([], [], 0, Some err), logError ''Failed to request lsp info'' w2)
              | (Inr res, w2) \<Rightarrow>
                  (case ResponseBody res of
                     Inl err \<Rightarrow>
                       (([], [], 0, Some (Message ''failed to read response body'')),
                        logError ''Failed to read response body'' w2)
                   | Inr body \<Rightarrow>
                       (case unmarshal_lsps1LSPInfo e body of
                          Inl err \<Rightarrow>
                            (([], [], 0,
                              Some (Message
                                      (''failed to deserialize json '' @ url @ '' '' @ body))),
                             logError ''Failed to deserialize json'' w2)
                        | Inr URIs \<Rightarrow>
                            (let err = (None :: error option);
                                 httpUris = filter (\<lambda>uri. \<not> Contains uri ''.onion'') URIs
                             in case httpUris of
                                  [] \<Rightarrow>
                                    (([], [], 0, err), logError ''Couldn't find HTTP URI'' w2)
                                | uri # _ \<Rightarrow>
                                    (case FindStringSubmatch uri of
                                       None \<Rightarrow>
                                         (([], [], 0, Some (Message ''could not decode LSP URI'')),
                                          logError ''Unsupported URI'' w2)
                                     | Some (p1, p2, p3) \<Rightarrow>
                                         (case Atoi p3 of
                                            Inl aerr \<Rightarrow>
                                              (([], [], 0, Some aerr),
                                               logError ''Failed to decode port number'' w2)
                                          | Inr portValue \<Rightarrow>
                                              ((p1, p2, word_of_int portValue, None), w2))))))))"

definition RequestAutoChannel ::
    "env \<Rightarrow> bool \<Rightarrow> world \<Rightarrow> (error + AutoChannelResponse) \<times> world" where
  "RequestAutoChannel e isPublic w =
     (case ln_GetInfo e of
        Inl err \<Rightarrow> (Inl err, logError ''Failed to request own node info'' w)
      | Inr (nodePubkey, network) \<Rightarrow>
          (let requestUrl = ''https://api.getalby.com/internal/lsp/alby/'' @ network
           in case getLSPInfo e (requestUrl @ ''/v1/get_info'') w of
                ((pubkey, address, port, Some err), w1) \<Rightarrow>
                  (Inl err, logError ''Failed to request LSP info'' w1)
              | ((pubkey, address, port, None), w1) \<Rightarrow>
                  (let w2 = emit (LnConnectPeer pubkey address port) w1
                   in case ln_ConnectPeer e pubkey address port of
                        Some err \<Rightarrow> (Inl err, logError ''Failed to connect to peer'' w2)
                      | None \<Rightarrow>
                          (case requestAutoChannel e (requestUrl @ ''/auto_channel'')
                                  nodePubkey isPublic w2 of
                             (Inl err, w3) \<Rightarrow>
                               (Inl err, logError ''Failed to request auto channel'' w3)
                           | (Inr r, w3) \<Rightarrow> (Inr r, w3)))))"

section \<open>Observations and example collaborators\<close>

text \<open>What an operation added to the trace, and the refresh exchanges and HTTP requests
  among it.\<close>

definition new_effects :: "world \<Rightarrow> world \<Rightarrow> effect list" where
  "new_effects w w' = drop (length (trace w)) (trace w')"

definition token_source_calls :: "world \<Rightarrow> world \<Rightarrow> token list" where
  "token_source_calls w w' = [t. OAuthTokenSource t \<leftarrow> new_effects w w']"

definition requests_sent :: "world \<Rightarrow> world \<Rightarrow> http_request list" where
  "requests_sent w w' = [req. HttpDo req \<leftarrow> new_effects w w']"

text \<open>The invoices an operation asked the transactions service for, by their amounts.\<close>

definition invoices_requested :: "world \<Rightarrow> world \<Rightarrow> int64 list" where
  "invoices_requested w w' = [a. TxMakeInvoice a \<leftarrow> new_effects w w']"

text \<open>The time from the Unix epoch to a reading, in nanoseconds, as an unbounded
  integer: the yardstick the behaviour of the bounded arithmetic is measured with.\<close>

definition since_epoch :: "Time \<Rightarrow> int" where
  "since_epoch t = (wall_sec t - unixToInternal) * Second + wall_nsec t"

text \<open>The token a function goes on with after \<^verbatim>\<open>token, err := svc.fetchUserToken(ctx)\<close>
  when it only logs the error: nil on failure.\<close>

definition token_or_nil :: "error + token option \<Rightarrow> token option" where
  "token_or_nil r = (case r of Inl err \<Rightarrow> None | Inr t \<Rightarrow> t)"

text \<open>An environment in which every collaborator is unreachable; the examples below
  replace the answers they need.\<close>

definition offline :: env where
  "offline =
     \<lparr>now = time_Unix 0, AlbyAPIURL = ''https://api.getalby.com'', LogEvents = True,
      AutoLinkAlbyAccount = False, version_Tag = ''v1'', NostrPublicKey = ''02ab'',
      NOTIFICATIONS_SCOPE = ''notifications'', BUDGET_RENEWAL_MONTHLY = ''monthly'',
      oauth_Exchange = (\<lambda>_. Inl (External ''offline'')),
      oauth_Token = (\<lambda>_. Inl (External ''offline'')),
      http_NewRequest_error = (\<lambda>_ _. None),
      transport = (\<lambda>_. Inl (External ''offline'')),
      decode_AlbyMe = (\<lambda>_. Inl (External ''offline'')),
      decode_CreateNWCNodeResponse = (\<lambda>_. Inl (External ''offline'')),
      db_Delete_error = None,
      db_CreateApp_error = (\<lambda>_. None),
      RequestMethodsToScopes = (\<lambda>ms. Inr ms),
      ln_GetSupportedNIP47Methods = [],
      ln_GetSupportedNIP47NotificationTypes = [],
      ln_GetInfo = Inl (External ''offline''),
      ln_ConnectPeer = (\<lambda>_ _ _. None),
      AesGcmEncrypt = (\<lambda>_ _. Inl (External ''offline'')),
      json_roundtrip = (\<lambda>_. Inl (External ''offline'')),
      unmarshal_autoChannelResponse = (\<lambda>_. Inl (External ''offline'')),
      unmarshal_lsps1LSPInfo = (\<lambda>_. Inl (External ''offline'')),
      Decodepay = (\<lambda>_. Inl (External ''offline'')),
      decode_AlbyBalance = (\<lambda>_. Inl (External ''offline'')),
      decode_ErrorResponse = (\<lambda>_. Inl (External ''offline'')),
      decode_PayResponse = (\<lambda>_. Some (External ''offline'')),
      MakeInvoice = (\<lambda>_. Inl (External ''offline'')),
      fuse_first = False,
      fuse_second = False\<rparr>"

text \<open>A store that holds a session and nothing else.\<close>

definition stored_session :: "string \<Rightarrow> string \<Rightarrow> string \<Rightarrow> world" where
  "stored_session a r x =
     \<lparr>cfg = (\<lambda>k. if k = accessTokenKey then Inr a
                 else if k = refreshTokenKey then Inr r
                 else if k = accessTokenExpiryKey then Inr x
                 else Inr []),
      apps = [], trace = []\<rparr>"

definition token_a2 :: token where
  "token_a2 = \<lparr>AccessToken = ''a2'', RefreshToken = ''r2'', Expiry = time_Unix 4600\<rparr>"

text \<open>The clock reads 1000 s and the provider answers every refresh with \<open>token_a2\<close>.\<close>

definition refreshing :: env where
  "refreshing = offline\<lparr>now := time_Unix 1000, oauth_Token := (\<lambda>_. Inr token_a2)\<rparr>"

text \<open>The same clock, and a token source that hands the token back while it has more than
  ten seconds left and answers with \<open>token_a2\<close> otherwise.\<close>

definition reusing :: env where
  "reusing =
     offline\<lparr>now := time_Unix 1000,
             oauth_Token :=
               (\<lambda>t. if After (Expiry t) (Add (time_Unix 1000) (10 * Second)) then Inr t
                    else Inr token_a2)\<rparr>"

text \<open>The merged property map, whatever the loop logs on the way.\<close>

definition empty_world :: world where
  "empty_world = \<lparr>cfg = (\<lambda>k. Inr []), apps = [], trace = []\<rparr>"

definition merged_properties ::
    "(string \<times> gvalue) list \<Rightarrow> (string \<times> gvalue) list \<Rightarrow> (string \<times> gvalue) list" where
  "merged_properties globals own = fst (add_global_properties globals own empty_world)"

text \<open>A store with a session that is good for another 21 seconds at clock reading 1000 s,
  and that session as a token.\<close>

definition logged_in :: world where
  "logged_in = stored_session ''a1'' ''r1'' ''1021''"

definition token_a1 :: token where
  "token_a1 = \<lparr>AccessToken = ''a1'', RefreshToken = ''r1'', Expiry = time_Unix 1021\<rparr>"

text \<open>Example events: a received-payment event whose properties are not a transaction, and
  a sent-payment event for a payment settled five seconds after it was created.\<close>

definition malformed_received :: event where
  "malformed_received =
     \<lparr>Event = ''nwc_payment_received'',
      Properties = Original (OtherProperties (GString ''oops''))\<rparr>"

definition settled_payment :: transaction where
  "settled_payment =
     \<lparr>PaymentHash = ''abc'', CreatedAt = time_Unix 100, SettledAt = Some (time_Unix 105),
      FailureReason = [],
      OtherColumns = [(''amount_msat'', GNumber 21000), (''description'', GString ''coffee'')]\<rparr>"

definition payment_sent_event :: event where
  "payment_sent_event =
     \<lparr>Event = ''nwc_payment_sent'', Properties = Original (TransactionPtr (Some settled_payment))\<rparr>"

definition payment_received_event :: event where
  "payment_received_event =
     \<lparr>Event = ''nwc_payment_received'',
      Properties = Original (TransactionPtr (Some settled_payment))\<rparr>"

definition failed_payment :: transaction where
  "failed_payment =
     \<lparr>PaymentHash = ''def'', CreatedAt = time_Unix 100, SettledAt = None,
      FailureReason = ''no route'',
      OtherColumns = [(''amount_msat'', GNumber 21000), (''description'', GString ''tea'')]\<rparr>"

definition payment_failed_event :: event where
  "payment_failed_event =
     \<lparr>Event = ''nwc_payment_failed'', Properties = Original (TransactionPtr (Some failed_payment))\<rparr>"

text \<open>A sent payment whose settlement time lies five seconds before its creation time,
  and a failed payment whose reason is one byte that is no UTF-8.\<close>

definition backdated_payment :: transaction where
  "backdated_payment =
     \<lparr>PaymentHash = ''abc'', CreatedAt = time_Unix 105, SettledAt = Some (time_Unix 100),
      FailureReason = [], OtherColumns = []\<rparr>"

definition backdated_sent_event :: event where
  "backdated_sent_event =
     \<lparr>Event = ''nwc_payment_sent'',
      Properties = Original (TransactionPtr (Some backdated_payment))\<rparr>"

definition garbled_payment :: transaction where
  "garbled_payment =
     \<lparr>PaymentHash = ''def'', CreatedAt = time_Unix 100, SettledAt = None,
      FailureReason = [CHR 0xFF], OtherColumns = []\<rparr>"

definition garbled_failed_event :: event where
  "garbled_failed_event =
     \<lparr>Event = ''nwc_payment_failed'',
      Properties = Original (TransactionPtr (Some garbled_payment))\<rparr>"

text \<open>The request to the events endpoint as the example environment sends it.\<close>

definition events_request :: "payload \<Rightarrow> http_request" where
  "events_request b =
     \<lparr>Method = ''POST'', URL = ''https://api.getalby.com/events'',
      Headers = [(''Content-Type'', ''application/json''), (''User-Agent'', ''AlbyHub/v1'')],
      Bearer = Some token_a1, Timeout = 0, Body = b\<rparr>"

text \<open>The error the provisioning calls return for a status of 300 or more.\<close>

definition non_success :: "string \<Rightarrow> error" where
  "non_success path = Message (''request to '' @ path @ '' returned non-success status'')"

text \<open>A store no key of which can be read, and a provider that answers every request with
  status 200 and whose node-creation answer decodes to the key \<open>03cd\<close>.\<close>

definition unreadable_store :: world where
  "unreadable_store =
     \<lparr>cfg = (\<lambda>k. Inl (External ''config unreadable'')), apps = [], trace = []\<rparr>"

definition provider_up :: env where
  "provider_up =
     offline\<lparr>transport := (\<lambda>req. Inr \<lparr>StatusCode = 200, ResponseBody = Inr ''{}''\<rparr>),
             decode_CreateNWCNodeResponse := (\<lambda>body. Inr ''03cd'')\<rparr>"

text \<open>A provider that reports the given custodial balance, with the two ways of compiling
  the drain formula as given.\<close>

definition custodial :: "bool \<Rightarrow> bool \<Rightarrow> int64 \<Rightarrow> env" where
  "custodial fuse1 fuse2 balance =
     offline\<lparr>transport := (\<lambda>req. Inr \<lparr>StatusCode = 200, ResponseBody = Inr ''balance''\<rparr>),
             decode_AlbyBalance := (\<lambda>body. Inr balance),
             fuse_first := fuse1, fuse_second := fuse2\<rparr>"

text \<open>An LSP whose offer has a channel size of 1000000 sat and a payment with the given
  fee text, for an invoice that decodes to 500000 msat.\<close>

definition quoting :: "string \<Rightarrow> env" where
  "quoting feeTotalSat =
     offline\<lparr>transport := (\<lambda>req. Inr \<lparr>StatusCode = 200, ResponseBody = Inr ''offer''\<rparr>),
             unmarshal_autoChannelResponse :=
               (\<lambda>body. Inr \<lparr>LspBalanceSat = ''1000000'',
                              Payment = Some (''lnbc5u'', feeTotalSat)\<rparr>),
             Decodepay := (\<lambda>invoice. Inr 500000)\<rparr>"

text \<open>An LSP that advertises an onion address only, and one that advertises an onion
  address and then a clear IPv4 address.\<close>

definition onion_only :: env where
  "onion_only =
     offline\<lparr>transport := (\<lambda>req. Inr \<lparr>StatusCode = 200, ResponseBody = Inr ''info''\<rparr>),
             unmarshal_lsps1LSPInfo := (\<lambda>body. Inr [''02ab@abcdefgh.onion:9735'']),
             ln_GetInfo := Inr (''03ef'', ''bitcoin'')\<rparr>"

definition clearnet :: env where
  "clearnet =
     offline\<lparr>transport := (\<lambda>req. Inr \<lparr>StatusCode = 200, ResponseBody = Inr ''info''\<rparr>),
             unmarshal_lsps1LSPInfo :=
               (\<lambda>body. Inr [''02ab@abcdefgh.onion:9735'', ''02ab@1.2.3.4:9735''])\<rparr>"

text \<open>A hub linked to \<open>user1\<close> with no session, and a provider that answers the code
  exchange with \<open>token_a2\<close> and the identity request with \<open>user2\<close>.\<close>

definition relinking :: env where
  "relinking =
     offline\<lparr>now := time_Unix 1000,
             oauth_Exchange := (\<lambda>code. Inr token_a2),
             transport := (\<lambda>req. Inr \<lparr>StatusCode = 200, ResponseBody = Inr ''me''\<rparr>),
             decode_AlbyMe :=
               (\<lambda>body. Inr \<lparr>Identifier = ''user2'', LightningAddress = ''user2@getalby.com''\<rparr>)\<rparr>"

definition linked_user1 :: world where
  "linked_user1 =
     \<lparr>cfg = (\<lambda>k. if k = userIdentifierKey then Inr ''user1'' else Inr []),
      apps = [], trace = []\<rparr>"

definition user2 :: AlbyMe where
  "user2 = \<lparr>Identifier = ''user2'', LightningAddress = ''user2@getalby.com''\<rparr>"

section \<open>Basic facts\<close>

lemmas key_defs =
  accessTokenKey_def accessTokenExpiryKey_def refreshTokenKey_def
  userIdentifierKey_def lightningAddressKey_def

lemma trace_emit [simp]: "trace (emit x w) = trace w @ [x]"
  by (simp add: emit_def)

lemma cfg_emit [simp]: "cfg (emit x w) = cfg w"
  by (simp add: emit_def)

lemma apps_emit [simp]: "apps (emit x w) = apps w"
  by (simp add: emit_def)

lemma trace_logError [simp]: "trace (logError m w) = trace w @ [LogError m]"
  by (simp add: logError_def)

lemma cfg_logError [simp]: "cfg (logError m w) = cfg w"
  by (simp add: logError_def)

lemma apps_logError [simp]: "apps (logError m w) = apps w"
  by (simp add: logError_def)

lemma trace_SetUpdate [simp]: "trace (SetUpdate k v w) = trace w"
  by (simp add: SetUpdate_def)

lemma cfg_SetUpdate [simp]: "cfg (SetUpdate k v w) = (cfg w)(k := Inr v)"
  by (simp add: SetUpdate_def cfg_SetUpdate_def)

lemma trace_saveToken [simp]: "trace (saveToken t w) = trace w"
  by (simp add: saveToken_def)

lemma cfg_saveToken:
  "cfg (saveToken t w) =
     (cfg w)(accessTokenExpiryKey := Inr (FormatInt (Unix (Expiry t))),
             accessTokenKey := Inr (AccessToken t),
             refreshTokenKey := Inr (RefreshToken t))"
  by (simp add: saveToken_def)

lemma ParseInt_nonempty: "ParseInt x = Inr s \<Longrightarrow> x \<noteq> []"
  by (auto simp add: ParseInt_def)

lemma ParseInt_1019: "ParseInt ''1019'' = Inr 1019"
  by (simp add: ParseInt_def ParseUint_def is_digit_def digit_value_def)

lemma ParseInt_1021: "ParseInt ''1021'' = Inr 1021"
  by (simp add: ParseInt_def ParseUint_def is_digit_def digit_value_def)

lemma ParseInt_range: "ParseInt x = Inr s \<Longrightarrow> - (2 ^ 63) \<le> s \<and> s < 2 ^ 63"
  by (auto simp add: ParseInt_def Let_def split: list.splits sum.splits if_splits)

lemma wrap64_id: "- (2 ^ 63) \<le> x \<Longrightarrow> x < 2 ^ 63 \<Longrightarrow> wrap64 x = x"
  by (simp add: wrap64_def)

lemma Unix_time_Unix:
  assumes "- (2 ^ 63) \<le> s" and "s + unixToInternal < 2 ^ 63"
  shows "Unix (time_Unix s) = s"
proof -
  have "- (2 ^ 63) \<le> s + unixToInternal"
    using assms(1) by (simp add: unixToInternal_def)
  then have "wrap64 (s + unixToInternal) = s + unixToInternal"
    using assms(2) by (rule wrap64_id)
  moreover have "s < 2 ^ 63"
    using assms(2) by (simp add: unixToInternal_def)
  ultimately show ?thesis
    using assms(1) by (simp add: Unix_def time_Unix_def wrap64_id)
qed

lemma Add_20_seconds:
  assumes "0 \<le> wall_nsec t" and "wall_nsec t < Second"
  shows "Add t (20 * Second) = \<lparr>wall_sec = addSec (wall_sec t) 20, wall_nsec = wall_nsec t\<rparr>"
  using assms by (simp add: Add_def Second_def signed_divide_int_def signed_modulo_int_def)

lemma addSec_20:
  assumes "- (2 ^ 63) \<le> n" and "n < 2 ^ 63"
  shows "addSec n 20 = (if n + 20 < 2 ^ 63 then n + 20 else 2 ^ 63 - 1)"
proof (cases "n + 20 < 2 ^ 63")
  case True
  then have "wrap64 (n + 20) = n + 20"
    using assms(1) by (intro wrap64_id) simp_all
  with True show ?thesis
    by (simp add: addSec_def)
next
  case False
  then have "(n + 20 + 2 ^ 63) mod 2 ^ 64 = n + 20 + 2 ^ 63 - 2 ^ 64"
    using assms(2) by (simp add: mod_pos_geq)
  then have "wrap64 (n + 20) = n + 20 - 2 ^ 64"
    by (simp add: wrap64_def)
  with False show ?thesis
    by (simp add: addSec_def)
qed

lemma After_expiry_buffer:
  assumes "- (2 ^ 63) \<le> s" and "s + unixToInternal < 2 ^ 63"
    and "- (2 ^ 63) \<le> wall_sec n" and "wall_sec n < 2 ^ 63"
    and "0 \<le> wall_nsec n" and "wall_nsec n < Second"
  shows "After (time_Unix s) (Add n (20 * Second))
           \<longleftrightarrow> since_epoch n + 20 * Second < s * Second"
proof -
  have "- (2 ^ 63) \<le> s + unixToInternal"
    using assms(1) by (simp add: unixToInternal_def)
  then have u: "time_Unix s = \<lparr>wall_sec = s + unixToInternal, wall_nsec = 0\<rparr>"
    using assms(2) by (simp add: time_Unix_def wrap64_id)
  have a: "Add n (20 * Second)
             = \<lparr>wall_sec = (if wall_sec n + 20 < 2 ^ 63 then wall_sec n + 20 else 2 ^ 63 - 1),
                wall_nsec = wall_nsec n\<rparr>"
    using assms by (simp only: Add_20_seconds addSec_20)
  have order: "since_epoch n + 20 * Second < s * Second
                 \<longleftrightarrow> wall_sec n + 20 < s + unixToInternal"
  proof -
    define k where "k = wall_sec n + 20 - (s + unixToInternal)"
    have eq: "since_epoch n + 20 * Second - s * Second = k * Second + wall_nsec n"
      by (simp add: since_epoch_def k_def algebra_simps)
    have sign: "k * Second + wall_nsec n < 0 \<longleftrightarrow> k < 0"
    proof
      assume "k * Second + wall_nsec n < 0"
      show "k < 0"
      proof (rule ccontr)
        assume "\<not> k < 0"
        then have "0 \<le> k * Second"
          by (simp add: Second_def)
        with assms(5) \<open>k * Second + wall_nsec n < 0\<close> show False
          by simp
      qed
    next
      assume "k < 0"
      then have "k \<le> - 1" by simp
      then have "k * Second \<le> - 1 * Second"
        by (intro mult_right_mono) (simp_all add: Second_def)
      with assms(6) show "k * Second + wall_nsec n < 0"
        by simp
    qed
    have "since_epoch n + 20 * Second < s * Second
            \<longleftrightarrow> since_epoch n + 20 * Second - s * Second < 0"
      by simp
    also have "\<dots> \<longleftrightarrow> k * Second + wall_nsec n < 0"
      by (simp only: eq)
    also have "\<dots> \<longleftrightarrow> k < 0"
      by (rule sign)
    also have "\<dots> \<longleftrightarrow> wall_sec n + 20 < s + unixToInternal"
      by (simp add: k_def)
    finally show ?thesis .
  qed
  show ?thesis
  proof (cases "wall_sec n + 20 < 2 ^ 63")
    case True
    with assms(5) show ?thesis
      by (simp add: u a After_def order)
  next
    case False
    with assms(2) assms(5) show ?thesis
      by (simp add: u a After_def order)
  qed
qed

lemma ParseInt_max: "ParseInt ''9223372036854775807'' = Inr 9223372036854775807"
  by (simp add: ParseInt_def ParseUint_def is_digit_def digit_value_def)

lemma cfg_stored_session:
  "cfg (stored_session a r x) accessTokenKey = Inr a"
  "cfg (stored_session a r x) refreshTokenKey = Inr r"
  "cfg (stored_session a r x) accessTokenExpiryKey = Inr x"
  by (simp_all add: stored_session_def key_defs)

lemma fst_add_global_properties:
  "fst (add_global_properties gs props w) = fst (add_global_properties gs props w')"
  by (induction gs arbitrary: props w w') (auto split: if_splits)

lemma merged_properties_eq:
  "add_global_properties gs props w = (m, w') \<Longrightarrow> m = merged_properties gs props"
  using fst_add_global_properties [of gs props w empty_world]
  by (simp add: merged_properties_def)

lemma add_global_properties_trace:
  "\<exists>xs. trace (snd (add_global_properties gs props w)) = trace w @ xs \<and> (\<forall>req. HttpDo req \<notin> set xs)"
proof (induction gs arbitrary: props w)
  case Nil
  then show ?case by simp
next
  case (Cons g gs)
  obtain k v where g: "g = (k, v)" by (cases g)
  show ?case
  proof (cases "map_of props k \<noteq> None")
    case True
    from Cons.IH [of props "logError ''Key already exists in event properties, skipping global property'' w"]
    obtain xs where "trace (snd (add_global_properties gs props
        (logError ''Key already exists in event properties, skipping global property'' w)))
        = trace w @ LogError ''Key already exists in event properties, skipping global property'' # xs"
      and "\<forall>req. HttpDo req \<notin> set xs"
      by auto
    with True g show ?thesis by auto
  next
    case False
    with Cons.IH [of "props @ [(k, v)]" w] g show ?thesis by auto
  qed
qed

lemma add_global_properties_traceD:
  "add_global_properties gs props w = (m, w') \<Longrightarrow>
     \<exists>xs. trace w' = trace w @ xs \<and> (\<forall>req. HttpDo req \<notin> set xs)"
  using add_global_properties_trace [of gs props w] by simp

lemma fetchUserToken_traceD:
  "fetchUserToken e w = (r, w') \<Longrightarrow>
     \<exists>xs. trace w' = trace w @ xs \<and> (\<forall>req. HttpDo req \<notin> set xs)"
  by (auto simp add: fetchUserToken_def Let_def split: sum.splits if_splits)

lemma requests_sent_logError [simp]:
  "requests_sent w (logError m w') = requests_sent w w'"
  by (auto simp add: requests_sent_def new_effects_def dest: in_set_dropD)

lemma requests_sent_self [simp]: "requests_sent w w = []"
  by (simp add: requests_sent_def new_effects_def)

lemma requests_sent_recover:
  "requests_sent w (snd (recover r)) = requests_sent w (snd r)"
  by (cases r) (simp add: recover_def split: completion.splits)

lemma unat_word_of_int_64:
  assumes "0 \<le> d" and "d < 2 ^ 64"
  shows "unat (word_of_int d :: 64 word) = nat d"
proof -
  have "uint (word_of_int d :: 64 word) = take_bit 64 d"
    by (simp add: uint_word_of_int_eq)
  also have "\<dots> = d"
    using assms by (intro take_bit_int_eq_self) simp_all
  finally show ?thesis
    by (simp only: unat_eq_nat_uint)
qed

lemma duration_seconds_exact:
  assumes "0 \<le> Unix settled - Unix created" and "Unix settled - Unix created < 2 ^ 53"
  shows "float64_of_uint64 (unat (duration_seconds settled created))
           = nat (Unix settled - Unix created)"
proof -
  define d where "d = Unix settled - Unix created"
  have d: "0 \<le> d" "d < 2 ^ 53"
    using assms by (simp_all add: d_def)
  have "(2::int) ^ 53 < 2 ^ 64"
    by (rule power_strict_increasing) simp_all
  with d have "d < 2 ^ 64" by (rule_tac less_trans)
  have "duration_seconds settled created = word_of_int d"
    by (simp add: duration_seconds_def d_def)
  then have u: "unat (duration_seconds settled created) = nat d"
    using unat_word_of_int_64 [OF d(1) \<open>d < 2 ^ 64\<close>] by simp
  have "nat d < 2 ^ 53"
    using d by (simp only: nat_less_iff) simp
  then show ?thesis
    unfolding u float64_of_uint64_def d_def [symmetric] by (simp only: if_True)
qed

lemma as_Transaction_Some:
  "as_Transaction p = Some ptr \<longleftrightarrow> p = Original (TransactionPtr ptr)"
  by (auto simp add: as_Transaction_def split: event_properties.splits properties.splits)

lemma offline_fields:
  "AlbyAPIURL offline = ''https://api.getalby.com''"
  "LogEvents offline = True"
  "version_Tag offline = ''v1''"
  "http_NewRequest_error offline m u = None"
  "transport offline req = Inl (External ''offline'')"
  by (simp_all add: offline_def)

lemma refreshing_fields:
  "now refreshing = time_Unix 1000"
  "AlbyAPIURL refreshing = ''https://api.getalby.com''"
  "LogEvents refreshing = True"
  "version_Tag refreshing = ''v1''"
  "http_NewRequest_error refreshing m u = None"
  "transport refreshing req = Inl (External ''offline'')"
  by (simp_all add: refreshing_def offline_fields)

lemma fetchUserToken_logged_in:
  "fetchUserToken refreshing logged_in = (Inr (Some token_a1), logged_in)"
  by (simp add: fetchUserToken_def cfg_Get_def logged_in_def cfg_stored_session ParseInt_1021
      After_def Add_def addSec_def time_Unix_def wrap64_def unixToInternal_def Second_def
      signed_divide_int_def signed_modulo_int_def refreshing_fields token_a1_def)

lemma cfg_logged_in: "cfg logged_in accessTokenKey = Inr ''a1''"
  by (simp add: logged_in_def cfg_stored_session)

section \<open>The amount drained from the shared wallet\<close>

subsection \<open>Rounding to 53 significant bits\<close>

lemma bit_length_0 [simp]: "bit_length 0 = 0"
  by (simp add: bit_length.simps)

lemma bit_length_upper: "n < 2 ^ bit_length n"
proof (induction n rule: bit_length.induct)
  case (1 n)
  show ?case
  proof (cases "n = 0")
    case True
    then show ?thesis by simp
  next
    case False
    with 1 have "n div 2 < 2 ^ bit_length (n div 2)" by simp
    moreover have "bit_length n = Suc (bit_length (n div 2))"
      using False by (subst bit_length.simps) simp
    ultimately show ?thesis by simp
  qed
qed

lemma bit_length_lower: "0 < n \<Longrightarrow> 2 ^ (bit_length n - 1) \<le> n"
proof (induction n rule: bit_length.induct)
  case (1 n)
  then have n: "n \<noteq> 0" by simp
  have bl: "bit_length n = Suc (bit_length (n div 2))"
    using n by (subst bit_length.simps) simp
  show ?case
  proof (cases "n div 2 = 0")
    case True
    then show ?thesis using n bl by simp
  next
    case False
    with 1 n have ih: "2 ^ (bit_length (n div 2) - 1) \<le> n div 2" by simp
    have pos: "0 < bit_length (n div 2)"
      using False by (subst bit_length.simps) simp
    then have "(2::nat) ^ bit_length (n div 2) = 2 * 2 ^ (bit_length (n div 2) - 1)"
      by (cases "bit_length (n div 2)") simp_all
    also have "\<dots> \<le> 2 * (n div 2)" using ih by simp
    also have "\<dots> \<le> n" by simp
    finally show ?thesis using bl by simp
  qed
qed

lemma bit_length_unique:
  assumes "2 ^ k \<le> n" and "n < 2 ^ Suc k"
  shows "bit_length n = Suc k"
proof -
  have pos: "0 < n"
    using assms(1) by (metis less_le_trans zero_less_numeral zero_less_power)
  have "(2::nat) ^ k < 2 ^ bit_length n"
    using assms(1) bit_length_upper [of n] by (rule le_less_trans)
  then have 1: "k < bit_length n"
    by (simp add: power_strict_increasing_iff)
  have "(2::nat) ^ (bit_length n - 1) < 2 ^ Suc k"
    using bit_length_lower [OF pos] assms(2) by (rule le_less_trans)
  then have 2: "bit_length n - 1 < Suc k"
    by (simp only: power_strict_increasing_iff one_less_numeral_iff semiring_norm)
  from 1 2 show ?thesis by simp
qed

lemma bit_length_le:
  assumes "n < 2 ^ k"
  shows "bit_length n \<le> k"
proof (cases "n = 0")
  case True
  then show ?thesis by simp
next
  case False
  then have "0 < n" by simp
  then have "(2::nat) ^ (bit_length n - 1) \<le> n"
    by (rule bit_length_lower)
  then have "(2::nat) ^ (bit_length n - 1) < 2 ^ k"
    using assms by (rule le_less_trans)
  then have "bit_length n - 1 < k"
    by (simp only: power_strict_increasing_iff one_less_numeral_iff semiring_norm)
  then show ?thesis by simp
qed

lemma round_half_even_error:
  assumes "0 < d"
  shows "\<bar>round_half_even n d * d - n\<bar> * 2 \<le> d"
proof -
  define q where "q = n div d"
  define r where "r = n mod d"
  have r: "0 \<le> r" "r < d"
    using assms by (simp_all add: r_def)
  have n: "n = q * d + r"
    by (simp add: q_def r_def)
  show ?thesis
  proof (cases "2 * r < d \<or> (2 * r = d \<and> even q)")
    case True
    then have "round_half_even n d = q"
      by (simp add: round_half_even_def q_def r_def Let_def)
    then have "round_half_even n d * d - n = - r"
      using n by simp
    with True r show ?thesis by auto
  next
    case False
    then have "round_half_even n d = q + 1"
      by (simp add: round_half_even_def q_def r_def Let_def)
    then have "round_half_even n d * d - n = d - r"
      using n by (simp add: algebra_simps)
    with False r show ?thesis by auto
  qed
qed

lemma float64_round_error: "\<bar>float64_round x - x\<bar> * 9007199254740992 \<le> \<bar>x\<bar>"
proof -
  define l where "l = bit_length (nat \<bar>x\<bar>)"
  show ?thesis
  proof (cases "l \<le> 53")
    case True
    then show ?thesis
      by (simp add: float64_round_def l_def)
  next
    case False
    define k where "k = l - 53"
    have l: "l = k + 53" using False by (simp add: k_def)
    have r: "float64_round x = round_half_even x (2 ^ k) * 2 ^ k"
      using False by (simp add: float64_round_def l_def [symmetric] k_def Let_def)
    have pos: "0 < nat \<bar>x\<bar>"
      using False by (cases "nat \<bar>x\<bar> = 0") (simp_all add: l_def)
    have "(2::nat) ^ (l - 1) \<le> nat \<bar>x\<bar>"
      unfolding l_def using pos by (rule bit_length_lower)
    then have "int ((2::nat) ^ (l - 1)) \<le> int (nat \<bar>x\<bar>)"
      by (simp only: of_nat_le_iff)
    then have low: "(2::int) ^ k * 2 ^ 52 \<le> \<bar>x\<bar>"
      using l by (simp add: power_add mult.commute)
    have "\<bar>float64_round x - x\<bar> * 2 \<le> 2 ^ k"
      unfolding r by (rule round_half_even_error) simp
    then have "\<bar>float64_round x - x\<bar> * 2 * 2 ^ 52 \<le> 2 ^ k * 2 ^ 52"
      by (rule mult_right_mono) simp
    with low show ?thesis
      by simp
  qed
qed

lemma float64_round_small:
  assumes "\<bar>x\<bar> < 2 ^ 53"
  shows "float64_round x = x"
proof -
  have "nat \<bar>x\<bar> < 2 ^ 53"
    using assms by (simp add: nat_less_iff)
  then have "bit_length (nat \<bar>x\<bar>) \<le> 53"
    by (rule bit_length_le)
  then show ?thesis
    by (simp add: float64_round_def)
qed

lemma float64_round_snap:
  assumes "x = Q * 2 ^ j + d"
    and "2 ^ (j + 52) \<le> x" and "x < 2 ^ (j + 53)"
    and "\<bar>d\<bar> * 2 < 2 ^ j"
  shows "float64_round x = Q * 2 ^ j"
proof -
  have "0 < x"
    using assms(2) by (rule less_le_trans [rotated]) simp
  then have ax: "nat \<bar>x\<bar> = nat x"
    by simp
  have "int (2 ^ (j + 52)) \<le> x" "x < int (2 ^ Suc (j + 52))"
    using assms(2,3) by (simp_all add: add.commute)
  then have "2 ^ (j + 52) \<le> nat x" "nat x < 2 ^ Suc (j + 52)"
    by (simp_all only: le_nat_iff nat_less_iff \<open>0 < x\<close> of_nat_0_le_iff)
  then have l: "bit_length (nat \<bar>x\<bar>) = Suc (j + 52)"
    unfolding ax by (rule bit_length_unique)
  show ?thesis
  proof (cases "j = 0")
    case True
    with assms(4) have "d = 0" by simp
    with True assms(1) l show ?thesis
      by (simp add: float64_round_def)
  next
    case False
    then have r: "float64_round x = round_half_even x (2 ^ j) * 2 ^ j"
      by (simp add: float64_round_def l Let_def)
    have p: "(0::int) < 2 ^ j" by simp
    have "round_half_even x (2 ^ j) = Q"
    proof (cases "0 \<le> d")
      case True
      with assms(4) have "d < 2 ^ j" by simp
      have "x div 2 ^ j = Q"
        using assms(1) True \<open>d < 2 ^ j\<close> by (intro int_div_pos_eq [of x _ Q d]) simp_all
      moreover have "x mod 2 ^ j = d"
        using assms(1) True \<open>d < 2 ^ j\<close> by (intro int_mod_pos_eq [of x _ Q d]) simp_all
      ultimately show ?thesis
        using assms(4) True by (simp add: round_half_even_def Let_def)
    next
      case False
      then have neg: "d < 0" by simp
      with assms(4) have b: "0 \<le> 2 ^ j + d" "2 ^ j + d < 2 ^ j" by simp_all
      have x: "x = 2 ^ j * (Q - 1) + (2 ^ j + d)"
        using assms(1) by (simp add: algebra_simps)
      have "x div 2 ^ j = Q - 1"
        using x b by (rule int_div_pos_eq)
      moreover have "x mod 2 ^ j = 2 ^ j + d"
        using x b by (rule int_mod_pos_eq)
      moreover have "\<not> 2 * (2 ^ j + d) < 2 ^ j" "2 * (2 ^ j + d) \<noteq> 2 ^ j"
        using assms(4) neg by simp_all
      ultimately show ?thesis
        by (simp add: round_half_even_def Let_def)
    qed
    with r show ?thesis by simp
  qed
qed

lemma float64_round_near_multiple:
  assumes "1 \<le> m" and "m < 2 ^ 53" and "\<bar>d\<bar> \<le> 12 * m"
  shows "float64_round (m * 2 ^ 59 + d) = m * 2 ^ 59"
proof -
  define n where "n = bit_length (nat m)"
  have mpos: "0 < nat m" using assms(1) by simp
  have "nat m < 2 ^ 53"
    using assms(2) by (simp add: nat_less_iff)
  then have n53: "n \<le> 53"
    unfolding n_def by (rule bit_length_le)
  have "n \<noteq> 0"
    using mpos by (subst n_def, subst bit_length.simps) simp
  define p where "p = n - 1"
  have n: "n = Suc p" using \<open>n \<noteq> 0\<close> by (simp add: p_def)
  have p52: "p \<le> 52" using n n53 by simp
  define P :: int where "P = 2 ^ p"
  define R :: int where "R = 2 ^ (52 - p)"
  have PR: "P * R = 2 ^ 52"
    using p52 by (simp add: P_def R_def power_add [symmetric])
  have Ppos: "1 \<le> P" by (simp add: P_def)
  have Rpos: "1 \<le> R" by (simp add: R_def)
  have "2 ^ (n - 1) \<le> nat m"
    unfolding n_def using mpos by (rule bit_length_lower)
  then have "int (2 ^ p) \<le> int (nat m)"
    unfolding p_def by (simp only: of_nat_le_iff)
  then have lo: "P \<le> m"
    using assms(1) by (simp add: P_def)
  have "nat m < 2 ^ n"
    unfolding n_def by (rule bit_length_upper)
  then have "int (nat m) < int (2 ^ Suc p)"
    unfolding n by (simp only: of_nat_less_iff)
  then have hi: "m < 2 * P"
    using assms(1) by (simp add: P_def)
  show ?thesis
  proof (cases "0 \<le> d \<or> P < m")
    case True
    define Q where "Q = m * R"
    have Q: "Q * 2 ^ (p + 7) = m * 2 ^ 59"
    proof -
      have "Q * 2 ^ (p + 7) = m * (P * R) * 2 ^ 7"
        by (simp add: Q_def P_def power_add)
      then show ?thesis
        by (simp add: PR)
    qed
    have two: "(2::int) ^ (p + 7 + 52) = P * 2 ^ 59" "(2::int) ^ (p + 7 + 53) = 2 * P * 2 ^ 59"
      "(2::int) ^ (p + 7) = 128 * P"
      by (simp_all add: P_def power_add)
    have "float64_round (m * 2 ^ 59 + d) = Q * 2 ^ (p + 7)"
    proof (rule float64_round_snap)
      show "m * 2 ^ 59 + d = Q * 2 ^ (p + 7) + d"
        by (simp add: Q)
      show "2 ^ (p + 7 + 52) \<le> m * 2 ^ 59 + d"
        unfolding two using True lo assms(2,3) by auto
      show "m * 2 ^ 59 + d < 2 ^ (p + 7 + 53)"
        unfolding two using hi assms(2,3) by auto
      show "\<bar>d\<bar> * 2 < 2 ^ (p + 7)"
        unfolding two using hi assms(3) by auto
    qed
    then show ?thesis
      by (simp add: Q)
  next
    case False
    with lo have neg: "d < 0" and m: "m = P" by auto
    have two: "(2::int) ^ (p + 6 + 52) = P * 2 ^ 58" "(2::int) ^ (p + 6 + 53) = P * 2 ^ 59"
      "(2::int) ^ (p + 6) = 64 * P"
      by (simp_all add: P_def power_add)
    have Q: "(2::int) ^ 53 * 2 ^ (p + 6) = m * 2 ^ 59"
      by (simp add: m P_def power_add)
    have "float64_round (m * 2 ^ 59 + d) = 2 ^ 53 * 2 ^ (p + 6)"
    proof (rule float64_round_snap)
      show "m * 2 ^ 59 + d = 2 ^ 53 * 2 ^ (p + 6) + d"
        by (simp only: Q)
      show "2 ^ (p + 6 + 52) \<le> m * 2 ^ 59 + d"
        unfolding two using m neg Ppos assms(3) by auto
      show "m * 2 ^ 59 + d < 2 ^ (p + 6 + 53)"
        unfolding two using m neg by auto
      show "\<bar>d\<bar> * 2 < 2 ^ (p + 6)"
        unfolding two using m Ppos assms(3) by auto
    qed
    then show ?thesis
      by (simp only: Q)
  qed
qed

subsection \<open>The formula in \<^verbatim>\<open>float64\<close> and in exact arithmetic\<close>

lemma float64_const_0_008: "float64_const 8 1000 = 4611686018427388"
  by (simp add: float64_const_def round_half_even_def)

lemma float64_const_0_01: "float64_const 1 100 = 5764607523034235"
  by (simp add: float64_const_def round_half_even_def)

lemma after_fees_unfold:
  assumes "0 \<le> b" and "b \<le> 1000000000000"
  shows "after_fees f1 f2 b =
           float64_round
             (float64_round
                (b * 576460752303423488
                   - (if f1 then b * 4611686018427388
                      else float64_round (b * 4611686018427388)))
              - (if f2 then b * 5764607523034235 else float64_round (b * 5764607523034235)))"
proof -
  have "\<bar>b\<bar> < 2 ^ 53"
    using assms by simp
  then have "float64_round b = b"
    by (rule float64_round_small)
  then show ?thesis
    by (simp add: after_fees_def float64_const_0_008 float64_const_0_01 Let_def)
qed

lemma after_fees_multiple:
  assumes "1 \<le> k" and "k \<le> 2000000000"
  shows "after_fees f1 f2 (500 * k) = 491 * k * 2 ^ 59"
proof -
  have fee: "500 * k * 4611686018427388 = 4 * k * 2 ^ 59 + 48 * k"
    by simp
  have routing: "500 * k * 5764607523034235 = 5 * k * 2 ^ 59 + 60 * k"
    by simp
  have fee': "float64_round (4 * k * 2 ^ 59 + 48 * k) = 4 * k * 2 ^ 59"
    using assms by (intro float64_round_near_multiple) simp_all
  have routing': "float64_round (5 * k * 2 ^ 59 + 60 * k) = 5 * k * 2 ^ 59"
    using assms by (intro float64_round_near_multiple) simp_all
  have rest_fused: "float64_round (496 * k * 2 ^ 59 + (- 48 * k)) = 496 * k * 2 ^ 59"
    using assms by (intro float64_round_near_multiple) simp_all
  have rest_plain: "float64_round (496 * k * 2 ^ 59 + 0) = 496 * k * 2 ^ 59"
    using assms by (intro float64_round_near_multiple) simp_all
  have last_fused: "float64_round (491 * k * 2 ^ 59 + (- 60 * k)) = 491 * k * 2 ^ 59"
    using assms by (intro float64_round_near_multiple) simp_all
  have last_plain: "float64_round (491 * k * 2 ^ 59 + 0) = 491 * k * 2 ^ 59"
    using assms by (intro float64_round_near_multiple) simp_all
  have rest: "float64_round
                (500 * k * 576460752303423488
                   - (if f1 then 500 * k * 4611686018427388
                      else float64_round (500 * k * 4611686018427388)))
                = 496 * k * 2 ^ 59"
  proof (cases f1)
    case True
    have "500 * k * 576460752303423488 - 500 * k * 4611686018427388
            = 496 * k * 2 ^ 59 + (- 48 * k)"
      by simp
    with True rest_fused show ?thesis
      by (simp only: if_True)
  next
    case False
    have "500 * k * 576460752303423488 - 4 * k * 2 ^ 59 = 496 * k * 2 ^ 59 + 0"
      by simp
    with False rest_plain fee fee' show ?thesis
      by (simp only: if_False)
  qed
  have last: "float64_round
                (496 * k * 2 ^ 59
                   - (if f2 then 500 * k * 5764607523034235
                      else float64_round (500 * k * 5764607523034235)))
                = 491 * k * 2 ^ 59"
  proof (cases f2)
    case True
    have "496 * k * 2 ^ 59 - 500 * k * 5764607523034235 = 491 * k * 2 ^ 59 + (- 60 * k)"
      by simp
    with True last_fused show ?thesis
      by (simp only: if_True)
  next
    case False
    have "496 * k * 2 ^ 59 - 5 * k * 2 ^ 59 = 491 * k * 2 ^ 59 + 0"
      by simp
    with False last_plain routing routing' show ?thesis
      by (simp only: if_False)
  qed
  have "0 \<le> 500 * k" "500 * k \<le> 1000000000000"
    using assms by simp_all
  then show ?thesis
    by (simp only: after_fees_unfold rest last)
qed

lemma float64_round_within:
  assumes "\<bar>x\<bar> \<le> c * 9007199254740992"
  shows "\<bar>float64_round x - x\<bar> \<le> c"
proof -
  have "\<bar>float64_round x - x\<bar> * 9007199254740992 \<le> c * 9007199254740992"
    using float64_round_error [of x] assms by (rule order_trans)
  then show ?thesis
    by simp
qed

lemma after_fees_not_multiple:
  assumes "0 \<le> b" and "b \<le> 1000000000000" and "(491 * b) mod 500 \<noteq> 0"
  shows "after_fees f1 f2 b div 2 ^ 59 = (491 * b) div 500"
proof -
  define fee where "fee = (if f1 then b * 4611686018427388
                           else float64_round (b * 4611686018427388))"
  define rest where "rest = float64_round (b * 576460752303423488 - fee)"
  define routing where "routing = (if f2 then b * 5764607523034235
                                   else float64_round (b * 5764607523034235))"
  define result where "result = float64_round (rest - routing)"
  have d: "after_fees f1 f2 b = result"
    using assms(1,2) by (simp add: after_fees_unfold result_def rest_def fee_def routing_def)
  have e1: "\<bar>fee - b * 4611686018427388\<bar> \<le> b"
  proof (cases f1)
    case True
    with assms(1) show ?thesis by (simp add: fee_def)
  next
    case False
    have "\<bar>b * 4611686018427388\<bar> \<le> b * 9007199254740992"
      using assms(1) by simp
    then have "\<bar>float64_round (b * 4611686018427388) - b * 4611686018427388\<bar> \<le> b"
      by (rule float64_round_within)
    with False show ?thesis by (simp add: fee_def)
  qed
  have e2: "\<bar>routing - b * 5764607523034235\<bar> \<le> b"
  proof (cases f2)
    case True
    with assms(1) show ?thesis by (simp add: routing_def)
  next
    case False
    have "\<bar>b * 5764607523034235\<bar> \<le> b * 9007199254740992"
      using assms(1) by simp
    then have "\<bar>float64_round (b * 5764607523034235) - b * 5764607523034235\<bar> \<le> b"
      by (rule float64_round_within)
    with False show ?thesis by (simp add: routing_def)
  qed
  have e3: "\<bar>rest - (b * 576460752303423488 - fee)\<bar> \<le> 128 * b"
  proof -
    have "\<bar>b * 576460752303423488 - fee\<bar> \<le> 128 * b * 9007199254740992"
      using e1 assms(1) by linarith
    then show ?thesis
      unfolding rest_def by (rule float64_round_within)
  qed
  have e4: "\<bar>result - (rest - routing)\<bar> \<le> 256 * b"
  proof -
    have "\<bar>rest - routing\<bar> \<le> 256 * b * 9007199254740992"
      using e1 e2 e3 assms(1) by linarith
    then show ?thesis
      unfolding result_def by (rule float64_round_within)
  qed
  define F where "F = (491 * b) div 500"
  define r where "r = (491 * b) mod 500"
  have split: "491 * b = 500 * F + r"
    by (simp add: F_def r_def)
  have r: "1 \<le> r" "r \<le> 499"
    using assms(3) pos_mod_sign [of 500 "491 * b"] pos_mod_bound [of 500 "491 * b"]
    by (simp_all add: r_def)
  have "result = 576460752303423488 * F + (result - 576460752303423488 * F)"
    by simp
  moreover have "0 \<le> result - 576460752303423488 * F"
    using e1 e2 e3 e4 split r assms(1,2) by linarith
  moreover have "result - 576460752303423488 * F < 576460752303423488"
    using e1 e2 e3 e4 split r assms(1,2) by linarith
  ultimately have "result div 576460752303423488 = F"
    by (rule int_div_pos_eq)
  then show ?thesis
    by (simp add: d F_def)
qed

lemma after_fees_exact:
  assumes "0 \<le> b" and "b \<le> 1000000000000"
  shows "after_fees f1 f2 b div 2 ^ 59 = (491 * b) div 500"
proof (cases "(491 * b) mod 500 = 0")
  case False
  with assms show ?thesis
    by (rule after_fees_not_multiple)
next
  case True
  then have "500 dvd 491 * b"
    by (simp add: dvd_eq_mod_eq_0)
  then have "500 dvd 111 * (491 * b)"
    by (rule dvd_mult)
  moreover have "(500::int) dvd 500 * (109 * b)"
    by (rule dvd_triv_left)
  ultimately have "500 dvd 111 * (491 * b) - 500 * (109 * b)"
    by (rule dvd_diff)
  then have "500 dvd b"
    by simp
  then obtain k where k: "b = 500 * k" ..
  show ?thesis
  proof (cases "k = 0")
    case True
    have "float64_round 0 = 0"
      by (rule float64_round_small) simp
    with True k show ?thesis
      by (simp add: after_fees_def)
  next
    case False
    with assms k have "1 \<le> k" "k \<le> 2000000000"
      by simp_all
    then have "after_fees f1 f2 (500 * k) = 491 * k * 2 ^ 59"
      by (rule after_fees_multiple)
    then show ?thesis
      by (simp add: k)
  qed
qed

lemma exact_formula:
  "\<lfloor>(of_int b :: rat) - of_int b * (8 / 1000) - of_int b * (1 / 100)\<rfloor> = (491 * b) div 500"
proof -
  have "(of_int b :: rat) - of_int b * (8 / 1000) - of_int b * (1 / 100)
          = of_int (491 * b) / of_int 500"
    by simp
  then show ?thesis
    by (simp only: floor_divide_of_int_eq)
qed

lemma sint_word_of_int_64:
  assumes "- (2 ^ 63) \<le> x" and "x < 2 ^ 63"
  shows "sint (word_of_int x :: 64 word) = x"
  using assms by (simp add: sint_sbintrunc' signed_take_bit_int_eq_self)

lemma amountSat_exact:
  assumes "0 \<le> sint balance" and "sint balance \<le> 1000000000000"
  shows "amountSat f1 f2 balance = word_of_int ((491 * sint balance) div 500 - 10)"
    and "sint (amountSat f1 f2 balance) = (491 * sint balance) div 500 - 10"
proof -
  show a: "amountSat f1 f2 balance = word_of_int ((491 * sint balance) div 500 - 10)"
    unfolding amountSat_def after_fees_exact [OF assms] by simp
  have "0 \<le> (491 * sint balance) div 500" "(491 * sint balance) div 500 \<le> 491 * sint balance"
    using assms(1) by (simp_all add: pos_imp_zdiv_nonneg_iff zdiv_mono2 [of _ 1 500, simplified])
  then have "- (2 ^ 63) \<le> (491 * sint balance) div 500 - 10"
      "(491 * sint balance) div 500 - 10 < 2 ^ 63"
    using assms(2) by simp_all
  then show "sint (amountSat f1 f2 balance) = (491 * sint balance) div 500 - 10"
    unfolding a by (rule sint_word_of_int_64)
qed

subsection \<open>The drain\<close>

lemma no_invoices:
  "\<forall>a. TxMakeInvoice a \<notin> set xs \<Longrightarrow> [a. TxMakeInvoice a \<leftarrow> xs] = []"
  by (induction xs) (auto split: effect.splits)

lemma invoices_requested_append:
  "trace w' = trace w @ xs \<Longrightarrow> invoices_requested w w' = [a. TxMakeInvoice a \<leftarrow> xs]"
  by (simp add: invoices_requested_def new_effects_def)

lemma fetchUserToken_invoices:
  "fetchUserToken e w = (r, w') \<Longrightarrow>
     \<exists>xs. trace w' = trace w @ xs \<and> (\<forall>a. TxMakeInvoice a \<notin> set xs)"
  by (auto simp add: fetchUserToken_def Let_def split: sum.splits if_splits)

lemma GetBalance_invoices:
  "\<exists>xs. trace (snd (GetBalance e w)) = trace w @ xs \<and> (\<forall>a. TxMakeInvoice a \<notin> set xs)"
proof -
  obtain r w1 where f: "fetchUserToken e w = (r, w1)" by (cases "fetchUserToken e w")
  from fetchUserToken_invoices [OF f] obtain xs where
    "trace w1 = trace w @ xs" "\<forall>a. TxMakeInvoice a \<notin> set xs" by blast
  with f show ?thesis
    by (auto simp add: GetBalance_def NewRequest_def client_Do_def Let_def split: sum.splits)
qed

lemma SendPayment_invoices:
  "\<exists>xs. trace (snd (SendPayment e invoice w)) = trace w @ xs
         \<and> (\<forall>a. TxMakeInvoice a \<notin> set xs)"
proof -
  obtain r w1 where f: "fetchUserToken e w = (r, w1)" by (cases "fetchUserToken e w")
  from fetchUserToken_invoices [OF f] obtain xs where
    "trace w1 = trace w @ xs" "\<forall>a. TxMakeInvoice a \<notin> set xs" by blast
  with f show ?thesis
    by (auto simp add: SendPayment_def NewRequest_def client_Do_def Let_def
        split: sum.splits option.splits)
qed

lemma DrainSharedWallet_short:
  assumes "GetBalance e w = (Inr balance, w1)"
    and "sint (amountSat (fuse_first e) (fuse_second e) balance) < 1"
  shows "fst (DrainSharedWallet e w) = Some (Message ''Not enough balance remaining'')"
    and "invoices_requested w (snd (DrainSharedWallet e w)) = []"
proof -
  from assms have d: "DrainSharedWallet e w = (Some (Message ''Not enough balance remaining''), w1)"
    by (simp add: DrainSharedWallet_def)
  then show "fst (DrainSharedWallet e w) = Some (Message ''Not enough balance remaining'')"
    by simp
  from GetBalance_invoices [of e w] assms(1) obtain xs where
    xs: "trace w1 = trace w @ xs" "\<forall>a. TxMakeInvoice a \<notin> set xs" by auto
  show "invoices_requested w (snd (DrainSharedWallet e w)) = []"
    unfolding d snd_conv invoices_requested_append [OF xs(1)] using xs(2) by (rule no_invoices)
qed

lemma DrainSharedWallet_invoice:
  assumes "GetBalance e w = (Inr balance, w1)"
    and "\<not> sint (amountSat (fuse_first e) (fuse_second e) balance) < 1"
  shows "invoices_requested w (snd (DrainSharedWallet e w))
           = [amountSat (fuse_first e) (fuse_second e) balance * 1000]"
proof -
  define amount where "amount = amountSat (fuse_first e) (fuse_second e) balance * 1000"
  define w2 where
    "w2 = emit (TxMakeInvoice amount) (logError ''Draining Alby shared wallet funds'' w1)"
  from GetBalance_invoices [of e w] assms(1) obtain xs where
    xs: "trace w1 = trace w @ xs" "\<forall>a. TxMakeInvoice a \<notin> set xs" by auto
  have clean: "[a. TxMakeInvoice a \<leftarrow> xs] = []"
    using xs(2) by (rule no_invoices)
  have t2: "trace w2 = trace w @ xs @ [LogError ''Draining Alby shared wallet funds'',
                                        TxMakeInvoice amount]"
    by (simp add: w2_def xs(1))
  have d: "DrainSharedWallet e w =
             (case MakeInvoice e amount of
                Inl err \<Rightarrow> (Some err, logError ''Failed to make invoice'' w2)
              | Inr paymentRequest \<Rightarrow>
                  (case SendPayment e paymentRequest w2 of
                     (Some err, w3) \<Rightarrow>
                       (Some err, logError ''Failed to pay invoice from shared node'' w3)
                   | (None, w3) \<Rightarrow> (None, w3)))"
    unfolding amount_def w2_def using assms by (simp add: DrainSharedWallet_def Let_def)
  have "\<exists>ys. trace (snd (DrainSharedWallet e w)) = trace w2 @ ys
              \<and> (\<forall>a. TxMakeInvoice a \<notin> set ys)"
  proof (cases "MakeInvoice e amount")
    case (Inl err)
    then show ?thesis
      by (simp add: d)
  next
    case (Inr paymentRequest)
    obtain r w3 where s: "SendPayment e paymentRequest w2 = (r, w3)"
      by (cases "SendPayment e paymentRequest w2")
    from SendPayment_invoices [of e paymentRequest w2] s obtain ys where
      "trace w3 = trace w2 @ ys" "\<forall>a. TxMakeInvoice a \<notin> set ys" by auto
    with Inr s show ?thesis
      by (cases r) (auto simp add: d)
  qed
  then obtain ys where
    ys: "trace (snd (DrainSharedWallet e w)) = trace w2 @ ys" "\<forall>a. TxMakeInvoice a \<notin> set ys"
    by blast
  have clean': "[a. TxMakeInvoice a \<leftarrow> ys] = []"
    using ys(2) by (rule no_invoices)
  have "trace (snd (DrainSharedWallet e w))
          = trace w @ (xs @ [LogError ''Draining Alby shared wallet funds'',
                             TxMakeInvoice amount] @ ys)"
    by (simp add: ys(1) t2)
  from invoices_requested_append [OF this] clean clean' show ?thesis
    by (simp add: amount_def)
qed

text \<open>
  C2. Take a custodial balance \<open>b\<close> between 0 and \<open>10 ^ 12\<close> satoshis that the provider
  reports. However the two subtractions of the formula are compiled, fused or not, the
  amount \<^verbatim>\<open>DrainSharedWallet\<close> computes in \<^verbatim>\<open>float64\<close> is the formula in exact
  arithmetic: the floor of \<open>b - b \<times> 0.008 - b \<times> 0.01\<close>, minus 10. The drain ends with the
  error \<open>Not enough balance remaining\<close> without asking for an invoice if and only if that
  amount is less than 1; otherwise it asks the transactions service for exactly one
  invoice, over the amount times 1000 millisatoshis.
\<close>

theorem DrainSharedWallet_amount:
  assumes "fst (GetBalance e w) = Inr balance"
    and "0 \<le> sint balance" and "sint balance \<le> 1000000000000"
  shows
    "(let b = sint balance;
          amount = \<lfloor>(of_int b :: rat) - of_int b * (8 / 1000) - of_int b * (1 / 100)\<rfloor> - 10;
          res = fst (DrainSharedWallet e w);
          w' = snd (DrainSharedWallet e w)
      in (\<forall>fuse1 fuse2. sint (amountSat fuse1 fuse2 balance) = amount)
         \<and> ((res = Some (Message ''Not enough balance remaining'')
               \<and> invoices_requested w w' = [])
              \<longleftrightarrow> amount < 1)
         \<and> (1 \<le> amount \<longrightarrow> invoices_requested w w' = [word_of_int (amount * 1000)]))"
proof -
  define amount where "amount = (491 * sint balance) div 500 - 10"
  obtain w1 where g: "GetBalance e w = (Inr balance, w1)"
    using assms(1) by (cases "GetBalance e w") simp
  have a: "amountSat f1 f2 balance = word_of_int amount" for f1 f2
    using amountSat_exact(1) [OF assms(2,3)] by (simp add: amount_def)
  have s: "sint (amountSat f1 f2 balance) = amount" for f1 f2
    using amountSat_exact(2) [OF assms(2,3)] by (simp add: amount_def)
  have msat: "amountSat f1 f2 balance * 1000 = word_of_int (amount * 1000)" for f1 f2
    unfolding a by simp
  have "(fst (DrainSharedWallet e w) = Some (Message ''Not enough balance remaining'')
           \<and> invoices_requested w (snd (DrainSharedWallet e w)) = [])
          \<longleftrightarrow> amount < 1"
  proof (cases "amount < 1")
    case True
    then have "sint (amountSat (fuse_first e) (fuse_second e) balance) < 1"
      by (simp add: s)
    from DrainSharedWallet_short [OF g this] True show ?thesis
      by simp
  next
    case False
    then have "\<not> sint (amountSat (fuse_first e) (fuse_second e) balance) < 1"
      by (simp add: s)
    from DrainSharedWallet_invoice [OF g this] False show ?thesis
      by simp
  qed
  moreover have "1 \<le> amount \<longrightarrow>
      invoices_requested w (snd (DrainSharedWallet e w)) = [word_of_int (amount * 1000)]"
  proof
    assume "1 \<le> amount"
    then have "\<not> sint (amountSat (fuse_first e) (fuse_second e) balance) < 1"
      by (simp add: s)
    from DrainSharedWallet_invoice [OF g this]
    show "invoices_requested w (snd (DrainSharedWallet e w)) = [word_of_int (amount * 1000)]"
      by (simp only: msat)
  qed
  ultimately show ?thesis
    unfolding Let_def exact_formula amount_def [symmetric] by (simp only: s simp_thms)
qed

text \<open>A balance of 1000 satoshis: 972 satoshis, and an invoice over 972000 millisatoshis
  is asked for. A balance of 10 satoshis: the drain ends with the error.\<close>

lemma GetBalance_custodial:
  "fst (GetBalance (custodial f1 f2 balance) empty_world) = Inr balance"
  by (simp add: GetBalance_def fetchUserToken_def cfg_Get_def empty_world_def key_defs
      NewRequest_def client_Do_def custodial_def offline_def)

lemma custodial_fuse:
  "fuse_first (custodial f1 f2 balance) = f1" "fuse_second (custodial f1 f2 balance) = f2"
  by (simp_all add: custodial_def)

lemma sint_examples:
  "sint (1000 :: int64) = 1000" "sint (10 :: int64) = 10"
  "sint (1000000000000001 :: int64) = 1000000000000001"
  by simp_all

theorem DrainSharedWallet_amount_witness:
  "sint (amountSat False False 1000) = 972
   \<and> sint (amountSat True True 1000) = 972
   \<and> invoices_requested empty_world
        (snd (DrainSharedWallet (custodial False False 1000) empty_world)) = [972000]
   \<and> fst (DrainSharedWallet (custodial False False 10) empty_world)
      = Some (Message ''Not enough balance remaining'')
   \<and> invoices_requested empty_world
        (snd (DrainSharedWallet (custodial False False 10) empty_world)) = []"
  using DrainSharedWallet_amount
          [of "custodial False False 1000" empty_world 1000, OF GetBalance_custodial]
        DrainSharedWallet_amount
          [of "custodial False False 10" empty_world 10, OF GetBalance_custodial]
  by (simp add: sint_examples Let_def exact_formula)

text \<open>
  A balance of 1000000000000001 satoshis. In exact arithmetic the formula gives
  981999999999990; in \<^verbatim>\<open>float64\<close> the service computes 981999999999991, fused or not,
  and asks for an invoice over 981999999999991000 millisatoshis.
\<close>

lemma float64_round_at:
  assumes "2 ^ (j + 52) \<le> x" and "x < 2 ^ (j + 53)" and "0 < j"
  shows "float64_round x = round_half_even x (2 ^ j) * 2 ^ j"
proof -
  have "0 < x"
    using assms(1) by (rule less_le_trans [rotated]) simp
  have "int (2 ^ (j + 52)) \<le> x" "x < int (2 ^ Suc (j + 52))"
    using assms(1,2) by (simp_all add: add.commute)
  then have "2 ^ (j + 52) \<le> nat x" "nat x < 2 ^ Suc (j + 52)"
    by (simp_all only: le_nat_iff nat_less_iff \<open>0 < x\<close> of_nat_0_le_iff)
  then have "bit_length (nat x) = Suc (j + 52)"
    by (rule bit_length_unique)
  with \<open>0 < x\<close> assms(3) show ?thesis
    by (simp add: float64_round_def Let_def)
qed

lemma after_fees_large:
  "after_fees f1 f2 1000000000000001 = 566084458761962441676752303423488"
proof -
  have balanceSat: "float64_round 1000000000000001 = 1000000000000001"
    by (rule float64_round_small) simp
  have fee: "float64_round 4611686018427392611686018427388 = 4611686018427392407599627370496"
    by (subst float64_round_at [of 49]) (simp_all add: round_half_even_def)
  have routing: "float64_round 5764607523034240764607523034235 = 5764607523034240509499534213120"
    by (subst float64_round_at [of 50]) (simp_all add: round_half_even_def)
  have rest_fused:
    "float64_round 571849066284996671849066284996100 = 571849066284996676556752303423488"
    by (subst float64_round_at [of 56]) (simp_all add: round_half_even_def)
  have rest_plain:
    "float64_round 571849066284996672053152676052992 = 571849066284996676556752303423488"
    by (subst float64_round_at [of 56]) (simp_all add: round_half_even_def)
  have last_fused:
    "float64_round 566084458761962435792144780389253 = 566084458761962441676752303423488"
    by (subst float64_round_at [of 56]) (simp_all add: round_half_even_def)
  have last_plain:
    "float64_round 566084458761962436047252769210368 = 566084458761962441676752303423488"
    by (subst float64_round_at [of 56]) (simp_all add: round_half_even_def)
  show ?thesis
    by (cases f1; cases f2)
      (simp_all add: after_fees_def float64_const_0_008 float64_const_0_01 balanceSat fee
        routing rest_fused rest_plain last_fused last_plain)
qed

theorem DrainSharedWallet_float64_off_by_one:
  "\<lfloor>(1000000000000001 :: rat) - 1000000000000001 * (8 / 1000) - 1000000000000001 * (1 / 100)\<rfloor>
      - 10 = 981999999999990
   \<and> sint (amountSat False False 1000000000000001) = 981999999999991
   \<and> sint (amountSat False True 1000000000000001) = 981999999999991
   \<and> sint (amountSat True False 1000000000000001) = 981999999999991
   \<and> sint (amountSat True True 1000000000000001) = 981999999999991
   \<and> invoices_requested empty_world
        (snd (DrainSharedWallet (custodial False False 1000000000000001) empty_world))
      = [981999999999991000]"
proof -
  have formula: "\<lfloor>(1000000000000001 :: rat) - 1000000000000001 * (8 / 1000)
                    - 1000000000000001 * (1 / 100)\<rfloor> - 10 = 981999999999990"
    using exact_formula [of 1000000000000001] by simp
  have amount: "amountSat f1 f2 1000000000000001 = 981999999999991" for f1 f2
    by (simp add: amountSat_def sint_examples after_fees_large)
  have sint: "sint (981999999999991 :: int64) = 981999999999991"
    by simp
  obtain w1 where g: "GetBalance (custodial False False 1000000000000001) empty_world
                        = (Inr 1000000000000001, w1)"
    using GetBalance_custodial [of False False 1000000000000001]
    by (cases "GetBalance (custodial False False 1000000000000001) empty_world") simp
  have "invoices_requested empty_world
          (snd (DrainSharedWallet (custodial False False 1000000000000001) empty_world))
        = [981999999999991000]"
    using DrainSharedWallet_invoice [OF g] by (simp add: amount sint)
  with formula show ?thesis
    by (simp add: amount sint)
qed

section \<open>The expiry buffer of the token cache\<close>


text \<open>At clock reading 1000 s: for a session expiring at 1019 s the token source is
  called, one expiring at 1021 s is returned as it is.\<close>

lemma since_epoch_1000: "since_epoch (now refreshing) = 1000 * Second"
  by (simp add: since_epoch_def refreshing_fields time_Unix_def wrap64_def unixToInternal_def)



section \<open>The telemetry relay never panics past its boundary\<close>

lemma body_panics:
  "ConsumeEvent_body offline (Some malformed_received) [] logged_in
     = (Panic interface_conversion, logged_in)"
  by (simp add: ConsumeEvent_body_def cfg_Get_def cfg_logged_in offline_fields
      malformed_received_def HasPrefix_def rewrite_received_def as_Transaction_def)

text \<open>
  C5. For every event (nil included), every list of global properties, every environment
  and every world, \<^verbatim>\<open>ConsumeEvent\<close> completes normally: whatever panic its body raises, a
  failed type assertion on the event's properties or a nil dereference, is recovered by
  the deferred function, and the function has no error result.
\<close>

theorem ConsumeEvent_returns_normally:
  "fst (ConsumeEvent e event globalProperties w) = Normal"
  by (cases "ConsumeEvent_body e event globalProperties w")
     (simp add: ConsumeEvent_def recover_def split: completion.splits)

text \<open>A received-payment event with malformed properties makes the body panic; the caller
  of \<^verbatim>\<open>ConsumeEvent\<close> sees a normal return.\<close>

theorem ConsumeEvent_returns_normally_witness:
  "ConsumeEvent_body offline (Some malformed_received) [] logged_in
     = (Panic interface_conversion, logged_in)
   \<and> fst (ConsumeEvent offline (Some malformed_received) [] logged_in) = Normal"
  using ConsumeEvent_returns_normally [of offline "Some malformed_received" "[]" logged_in]
  by (simp add: body_panics)

section \<open>Global properties never overwrite event properties\<close>

lemma map_of_add_global_properties:
  "map_of (fst (add_global_properties gs props w)) k =
     (case map_of props k of Some v \<Rightarrow> Some v | None \<Rightarrow> map_of gs k)"
  by (induction gs arbitrary: props w) (auto simp add: map_add_def split: option.splits)

text \<open>
  C8. The loop over the global properties yields a map in which every key of the event's
  own properties keeps its own value, and every other key has the value the global
  properties give it, if any. With own properties \<open>{paymentHash: abc}\<close> and global
  properties \<open>{paymentHash: xyz, version: 1}\<close> the result is exactly
  \<open>{paymentHash: abc, version: 1}\<close>.
\<close>

theorem global_properties_no_overwrite:
  "map_of (fst (add_global_properties globals own w)) k =
     (case map_of own k of Some v \<Rightarrow> Some v | None \<Rightarrow> map_of globals k)
   \<and> fst (add_global_properties
            [(''paymentHash'', GString ''xyz''), (''version'', GString ''1'')]
            [(''paymentHash'', GString ''abc'')] w)
       = [(''paymentHash'', GString ''abc''), (''version'', GString ''1'')]"
  by (simp add: map_of_add_global_properties)

section \<open>Payment events leave the host in reduced detail only\<close>

lemma copy_runes_ascii: "\<forall>c \<in> set s. byte c < 128 \<Longrightarrow> copy_runes 0 s = s"
  by (induction s) simp_all

lemma json_string_ascii: "\<forall>c \<in> set s. byte c < 128 \<Longrightarrow> json_string s = s"
  by (simp add: json_string_def copy_runes_ascii)

lemma event_names_json:
  "json_string ''nwc_payment_received'' = ''nwc_payment_received''"
  "json_string ''nwc_payment_sent'' = ''nwc_payment_sent''"
  "json_string ''nwc_payment_failed'' = ''nwc_payment_failed''"
  by (simp_all add: json_string_def byte_def)

lemma post_event_requests:
  assumes "req \<in> set (requests_sent w (snd (post_event e ev globals w)))"
  shows "\<exists>decoded. encode_decode e ev = Inr (Inr decoded) \<and>
           Body req = json_Encode (json_string (Event ev))
             (merged_properties globals (case decoded of None \<Rightarrow> [] | Some m \<Rightarrow> m))"
proof -
  obtain r w1 where f: "fetchUserToken e w = (r, w1)" by (cases "fetchUserToken e w")
  from fetchUserToken_traceD [OF f] obtain xs where
    xs: "trace w1 = trace w @ xs" "\<forall>req. HttpDo req \<notin> set xs" by blast
  show ?thesis
  proof (cases r)
    case (Inl err)
    with assms f xs show ?thesis
      by (auto simp add: post_event_def requests_sent_def new_effects_def)
  next
    case (Inr token)
    show ?thesis
    proof (cases "encode_decode e ev")
      case (Inl err)
      with assms f xs Inr show ?thesis
        by (auto simp add: post_event_def requests_sent_def new_effects_def)
    next
      case outer: (Inr inner)
      show ?thesis
      proof (cases inner)
        case (Inl err)
        with assms f xs Inr outer show ?thesis
          by (auto simp add: post_event_def requests_sent_def new_effects_def)
      next
        case inner: (Inr decoded)
        let ?own = "case decoded of None \<Rightarrow> [] | Some m \<Rightarrow> m"
        obtain merged w2 where a: "add_global_properties globals ?own w1 = (merged, w2)"
          by (cases "add_global_properties globals ?own w1")
        from add_global_properties_traceD [OF a] obtain ys where
          ys: "trace w2 = trace w1 @ ys" "\<forall>req. HttpDo req \<notin> set ys" by blast
        from merged_properties_eq [OF a] have m: "merged = merged_properties globals ?own" .
        from assms f xs Inr outer inner a ys m show ?thesis
          by (auto simp add: post_event_def requests_sent_def new_effects_def Let_def
              client_Do_def NewRequest_def setDefaultRequestHeaders_def
              split: if_splits sum.splits option.splits)
      qed
    qed
  qed
qed


lemma received_requests:
  assumes "Event ev = ''nwc_payment_received''"
    and "req \<in> set (requests_sent w (snd (ConsumeEvent_body e (Some ev) globals w)))"
  shows "\<exists>tx. Properties ev = Original (TransactionPtr (Some tx)) \<and>
           Body req = json_Encode ''nwc_payment_received''
             (merged_properties globals [(''payment_hash'', GString (json_string (PaymentHash tx)))])"
proof (cases "as_Transaction (Properties ev)")
  case None
  with assms show ?thesis
    by (auto simp add: ConsumeEvent_body_def HasPrefix_def rewrite_received_def
        split: sum.splits if_splits)
next
  case (Some ptr)
  show ?thesis
  proof (cases ptr)
    case None
    with Some assms show ?thesis
      by (auto simp add: ConsumeEvent_body_def HasPrefix_def rewrite_received_def
          split: sum.splits if_splits)
  next
    case tx: (Some tx)
    let ?ev = "\<lparr>Event = ''nwc_payment_received'',
                 Properties = paymentReceivedEventProperties (PaymentHash tx)\<rparr>"
    from Some tx have p: "Properties ev = Original (TransactionPtr (Some tx))"
      by (auto simp add: as_Transaction_def split: event_properties.splits properties.splits)
    from assms Some tx
    have "req \<in> set (requests_sent w (snd (post_event e ?ev globals w)))"
      by (auto simp add: ConsumeEvent_body_def HasPrefix_def rewrite_received_def
          rewrite_sent_def rewrite_failed_def split: sum.splits if_splits)
    from post_event_requests [OF this] p show ?thesis
      by (auto simp add: encode_decode_def event_names_json)
  qed
qed


lemma sent_requests:
  assumes "Event ev = ''nwc_payment_sent''"
    and "req \<in> set (requests_sent w (snd (ConsumeEvent_body e (Some ev) globals w)))"
  shows "\<exists>tx settled. Properties ev = Original (TransactionPtr (Some tx)) \<and>
           SettledAt tx = Some settled \<and>
           Body req = json_Encode ''nwc_payment_sent''
             (merged_properties globals
                [(''payment_hash'', GString (json_string (PaymentHash tx))),
                 (''duration'',
                  GNumber (of_nat (float64_of_uint64
                                     (unat (duration_seconds settled (CreatedAt tx))))))])"
proof (cases "as_Transaction (Properties ev)")
  case None
  with assms show ?thesis
    by (auto simp add: ConsumeEvent_body_def HasPrefix_def rewrite_received_def rewrite_sent_def
        split: sum.splits if_splits)
next
  case (Some ptr)
  show ?thesis
  proof (cases ptr)
    case None
    with Some assms show ?thesis
      by (auto simp add: ConsumeEvent_body_def HasPrefix_def rewrite_received_def
          rewrite_sent_def split: sum.splits if_splits)
  next
    case tx: (Some tx)
    from Some tx have p: "Properties ev = Original (TransactionPtr (Some tx))"
      by (simp add: as_Transaction_Some)
    show ?thesis
    proof (cases "SettledAt tx")
      case None
      with Some tx assms show ?thesis
        by (auto simp add: ConsumeEvent_body_def HasPrefix_def rewrite_received_def
            rewrite_sent_def split: sum.splits if_splits)
    next
      case settled: (Some settled)
      let ?ev = "\<lparr>Event = ''nwc_payment_sent'',
                   Properties = paymentSentEventProperties (PaymentHash tx)
                                  (duration_seconds settled (CreatedAt tx))\<rparr>"
      from assms Some tx settled
      have "req \<in> set (requests_sent w (snd (post_event e ?ev globals w)))"
        by (auto simp add: ConsumeEvent_body_def HasPrefix_def rewrite_received_def
            rewrite_sent_def rewrite_failed_def split: sum.splits if_splits)
      from post_event_requests [OF this] p settled show ?thesis
        by (auto simp add: encode_decode_def event_names_json)
    qed
  qed
qed

lemma failed_requests:
  assumes "Event ev = ''nwc_payment_failed''"
    and "req \<in> set (requests_sent w (snd (ConsumeEvent_body e (Some ev) globals w)))"
  shows "\<exists>tx. Properties ev = Original (TransactionPtr (Some tx)) \<and>
           Body req = json_Encode ''nwc_payment_failed''
             (merged_properties globals
                [(''payment_hash'', GString (json_string (PaymentHash tx))),
                 (''reason'', GString (json_string (FailureReason tx)))])"
proof (cases "as_Transaction (Properties ev)")
  case None
  with assms show ?thesis
    by (auto simp add: ConsumeEvent_body_def HasPrefix_def rewrite_received_def rewrite_sent_def
        rewrite_failed_def split: sum.splits if_splits)
next
  case (Some ptr)
  show ?thesis
  proof (cases ptr)
    case None
    with Some assms show ?thesis
      by (auto simp add: ConsumeEvent_body_def HasPrefix_def rewrite_received_def
          rewrite_sent_def rewrite_failed_def split: sum.splits if_splits)
  next
    case tx: (Some tx)
    from Some tx have p: "Properties ev = Original (TransactionPtr (Some tx))"
      by (simp add: as_Transaction_Some)
    let ?ev = "\<lparr>Event = ''nwc_payment_failed'',
                 Properties = paymentFailedEventProperties (PaymentHash tx) (FailureReason tx)\<rparr>"
    from assms Some tx
    have "req \<in> set (requests_sent w (snd (post_event e ?ev globals w)))"
      by (auto simp add: ConsumeEvent_body_def HasPrefix_def rewrite_received_def
          rewrite_sent_def rewrite_failed_def split: sum.splits if_splits)
    from post_event_requests [OF this] p show ?thesis
      by (auto simp add: encode_decode_def event_names_json)
  qed
qed

text \<open>
  C6. Whatever request \<^verbatim>\<open>ConsumeEvent\<close> hands to the HTTP client for a received, sent or
  failed payment event, the event carried a transaction and the request body is the JSON
  text of the event name with the reduced properties, merged with the global properties:
  \<open>payment_hash\<close> alone for a received payment; \<open>payment_hash\<close> and \<open>duration\<close> for a
  sent one; \<open>payment_hash\<close> and \<open>reason\<close> for a failed one. No other column of the
  transaction occurs in the body. The hash and the reason are sent as JSON strings: as
  they are when they are ASCII, and in general with every byte at which no well-formed
  UTF-8 rune starts replaced by U+FFFD. The duration is computed as the code computes it,
  the settlement time minus the creation time in whole seconds as a 64-bit difference read
  as unsigned and written as a JSON number; it is that difference itself whenever the
  difference lies between 0 and \<open>2 ^ 53\<close>.
\<close>

theorem payment_events_redacted:
  assumes "req \<in> set (requests_sent w (snd (ConsumeEvent e (Some ev) globals w)))"
  shows
    "(Event ev = ''nwc_payment_received'' \<longrightarrow>
        (\<exists>tx. Properties ev = Original (TransactionPtr (Some tx)) \<and>
           Body req = json_Encode ''nwc_payment_received''
             (merged_properties globals [(''payment_hash'', GString (json_string (PaymentHash tx)))])))
     \<and> (Event ev = ''nwc_payment_sent'' \<longrightarrow>
        (\<exists>tx settled. Properties ev = Original (TransactionPtr (Some tx)) \<and>
           SettledAt tx = Some settled \<and>
           Body req = json_Encode ''nwc_payment_sent''
             (merged_properties globals
                [(''payment_hash'', GString (json_string (PaymentHash tx))),
                 (''duration'',
                  GNumber (of_nat (float64_of_uint64
                                     (unat (duration_seconds settled (CreatedAt tx))))))]) \<and>
           (0 \<le> Unix settled - Unix (CreatedAt tx) \<and>
            Unix settled - Unix (CreatedAt tx) < 2 ^ 53 \<longrightarrow>
              float64_of_uint64 (unat (duration_seconds settled (CreatedAt tx)))
                = nat (Unix settled - Unix (CreatedAt tx)))))
     \<and> (Event ev = ''nwc_payment_failed'' \<longrightarrow>
        (\<exists>tx. Properties ev = Original (TransactionPtr (Some tx)) \<and>
           Body req = json_Encode ''nwc_payment_failed''
             (merged_properties globals
                [(''payment_hash'', GString (json_string (PaymentHash tx))),
                 (''reason'', GString (json_string (FailureReason tx)))])))
     \<and> (\<forall>s. (\<forall>c \<in> set s. byte c < 128) \<longrightarrow> json_string s = s)"
proof -
  from assms
  have r: "req \<in> set (requests_sent w (snd (ConsumeEvent_body e (Some ev) globals w)))"
    by (simp add: ConsumeEvent_def requests_sent_recover)
  show ?thesis
  proof (intro conjI impI allI)
    assume "Event ev = ''nwc_payment_received''"
    from received_requests [OF this r] show
      "\<exists>tx. Properties ev = Original (TransactionPtr (Some tx)) \<and>
         Body req = json_Encode ''nwc_payment_received''
           (merged_properties globals [(''payment_hash'', GString (json_string (PaymentHash tx)))])" .
  next
    assume "Event ev = ''nwc_payment_sent''"
    from sent_requests [OF this r] obtain tx settled where
      *: "Properties ev = Original (TransactionPtr (Some tx))" "SettledAt tx = Some settled"
         "Body req = json_Encode ''nwc_payment_sent''
             (merged_properties globals
                [(''payment_hash'', GString (json_string (PaymentHash tx))),
                 (''duration'',
                  GNumber (of_nat (float64_of_uint64
                                     (unat (duration_seconds settled (CreatedAt tx))))))])"
      by blast
    with duration_seconds_exact [of settled "CreatedAt tx"] show
      "\<exists>tx settled. Properties ev = Original (TransactionPtr (Some tx)) \<and>
           SettledAt tx = Some settled \<and>
           Body req = json_Encode ''nwc_payment_sent''
             (merged_properties globals
                [(''payment_hash'', GString (json_string (PaymentHash tx))),
                 (''duration'',
                  GNumber (of_nat (float64_of_uint64
                                     (unat (duration_seconds settled (CreatedAt tx))))))]) \<and>
           (0 \<le> Unix settled - Unix (CreatedAt tx) \<and>
            Unix settled - Unix (CreatedAt tx) < 2 ^ 53 \<longrightarrow>
              float64_of_uint64 (unat (duration_seconds settled (CreatedAt tx)))
                = nat (Unix settled - Unix (CreatedAt tx)))"
      by blast
  next
    assume "Event ev = ''nwc_payment_failed''"
    from failed_requests [OF this r] show
      "\<exists>tx. Properties ev = Original (TransactionPtr (Some tx)) \<and>
           Body req = json_Encode ''nwc_payment_failed''
             (merged_properties globals
                [(''payment_hash'', GString (json_string (PaymentHash tx))),
                 (''reason'', GString (json_string (FailureReason tx)))])" .
  next
    fix s :: string
    assume "\<forall>c \<in> set s. byte c < 128"
    then show "json_string s = s"
      by (rule json_string_ascii)
  qed
qed


lemma sent_duration_5:
  "float64_of_uint64 (unat (duration_seconds (time_Unix 105) (time_Unix 100))) = 5"
  by (simp add: duration_seconds_def Unix_def time_Unix_def wrap64_def unixToInternal_def
      float64_of_uint64_def)

lemma payment_sent_event_fields:
  "Event payment_sent_event = ''nwc_payment_sent''"
  "Properties payment_sent_event = Original (TransactionPtr (Some settled_payment))"
  "SettledAt settled_payment = Some (time_Unix 105)"
  "CreatedAt settled_payment = time_Unix 100"
  "PaymentHash settled_payment = ''abc''"
  by (simp_all add: payment_sent_event_def settled_payment_def)

lemma example_strings_json:
  "json_string ''abc'' = ''abc''"
  "json_string ''def'' = ''def''"
  "json_string ''no route'' = ''no route''"
  "json_string ''1'' = ''1''"
  "json_string ''payment_hash'' = ''payment_hash''"
  "json_string ''duration'' = ''duration''"
  "json_string ''reason'' = ''reason''"
  "json_string ''version'' = ''version''"
  by (simp_all add: json_string_def byte_def)

lemma json_string_FF: "json_string [CHR 0xFF] = [CHR 0xEF, CHR 0xBF, CHR 0xBD]"
  by (simp add: json_string_def byte_def DecodeRuneInString_def replacement_character_def)

lemma json_string_replacement:
  "json_string [CHR 0xEF, CHR 0xBF, CHR 0xBD] = [CHR 0xEF, CHR 0xBF, CHR 0xBD]"
  by (simp add: json_string_def byte_def DecodeRuneInString_def Let_def nth_Cons')

lemma payment_sent_run:
  "requests_sent logged_in
     (snd (ConsumeEvent refreshing (Some payment_sent_event) [(''version'', GString ''1'')] logged_in))
   = [events_request (EventWithPropertiesMap ''nwc_payment_sent''
        [(''payment_hash'', GString ''abc''), (''duration'', GNumber 5),
         (''version'', GString ''1'')])]"
  by (simp add: ConsumeEvent_def recover_def ConsumeEvent_body_def cfg_Get_def
      cfg_logged_in refreshing_fields payment_sent_event_def HasPrefix_def rewrite_received_def
      rewrite_sent_def rewrite_failed_def as_Transaction_def settled_payment_def post_event_def
      fetchUserToken_logged_in encode_decode_def sent_duration_5 NewRequest_def client_Do_def
      setDefaultRequestHeaders_def header_Set_def events_request_def requests_sent_def
      new_effects_def json_Encode_def event_names_json example_strings_json)

lemma payment_received_run:
  "requests_sent logged_in
     (snd (ConsumeEvent refreshing (Some payment_received_event) [] logged_in))
   = [events_request (EventWithPropertiesMap ''nwc_payment_received''
        [(''payment_hash'', GString ''abc'')])]"
  by (simp add: ConsumeEvent_def recover_def ConsumeEvent_body_def cfg_Get_def
      cfg_logged_in refreshing_fields payment_received_event_def HasPrefix_def
      rewrite_received_def rewrite_sent_def rewrite_failed_def as_Transaction_def
      settled_payment_def post_event_def fetchUserToken_logged_in encode_decode_def
      NewRequest_def client_Do_def setDefaultRequestHeaders_def header_Set_def
      events_request_def requests_sent_def new_effects_def json_Encode_def event_names_json
      example_strings_json)

lemma payment_failed_run:
  "requests_sent logged_in
     (snd (ConsumeEvent refreshing (Some payment_failed_event) [] logged_in))
   = [events_request (EventWithPropertiesMap ''nwc_payment_failed''
        [(''payment_hash'', GString ''def''), (''reason'', GString ''no route'')])]"
  by (simp add: ConsumeEvent_def recover_def ConsumeEvent_body_def cfg_Get_def
      cfg_logged_in refreshing_fields payment_failed_event_def HasPrefix_def
      rewrite_received_def rewrite_sent_def rewrite_failed_def as_Transaction_def
      failed_payment_def post_event_def fetchUserToken_logged_in encode_decode_def
      NewRequest_def client_Do_def setDefaultRequestHeaders_def header_Set_def
      events_request_def requests_sent_def new_effects_def json_Encode_def event_names_json
      example_strings_json)

lemma payment_other_event_fields:
  "Event payment_received_event = ''nwc_payment_received''"
  "Properties payment_received_event = Original (TransactionPtr (Some settled_payment))"
  "Event payment_failed_event = ''nwc_payment_failed''"
  "Properties payment_failed_event = Original (TransactionPtr (Some failed_payment))"
  "PaymentHash failed_payment = ''def''"
  "FailureReason failed_payment = ''no route''"
  by (simp_all add: payment_received_event_def payment_failed_event_def failed_payment_def)

text \<open>One run for each of the three names. A payment settled five seconds after its
  creation, relayed as sent with the global property \<open>version\<close>: the request carries the
  hash, the duration 5 and the version. The same payment relayed as received: the hash
  alone. A failed payment: the hash and the reason. The amount and the description of the
  transactions are in none of the requests.\<close>

theorem payment_events_redacted_witness:
  "requests_sent logged_in
     (snd (ConsumeEvent refreshing (Some payment_sent_event)
             [(''version'', GString ''1'')] logged_in))
     = [events_request (EventWithPropertiesMap ''nwc_payment_sent''
          [(''payment_hash'', GString ''abc''), (''duration'', GNumber 5),
           (''version'', GString ''1'')])]
   \<and> json_Encode ''nwc_payment_sent''
        (merged_properties [(''version'', GString ''1'')]
           [(''payment_hash'', GString (json_string ''abc'')),
            (''duration'',
             GNumber (of_nat (float64_of_uint64
                                (unat (duration_seconds (time_Unix 105) (time_Unix 100))))))])
      = EventWithPropertiesMap ''nwc_payment_sent''
          [(''payment_hash'', GString ''abc''), (''duration'', GNumber 5),
           (''version'', GString ''1'')]
   \<and> requests_sent logged_in
        (snd (ConsumeEvent refreshing (Some payment_received_event) [] logged_in))
     = [events_request (json_Encode ''nwc_payment_received''
          (merged_properties [] [(''payment_hash'', GString (json_string ''abc''))]))]
   \<and> requests_sent logged_in
        (snd (ConsumeEvent refreshing (Some payment_failed_event) [] logged_in))
     = [events_request (json_Encode ''nwc_payment_failed''
          (merged_properties []
             [(''payment_hash'', GString (json_string ''def'')),
              (''reason'', GString (json_string ''no route''))]))]"
  using payment_events_redacted
          [of "events_request (EventWithPropertiesMap ''nwc_payment_sent''
                 [(''payment_hash'', GString ''abc''), (''duration'', GNumber 5),
                  (''version'', GString ''1'')])"
              logged_in refreshing payment_sent_event "[(''version'', GString ''1'')]"]
        payment_events_redacted
          [of "events_request (EventWithPropertiesMap ''nwc_payment_received''
                 [(''payment_hash'', GString ''abc'')])"
              logged_in refreshing payment_received_event "[]"]
        payment_events_redacted
          [of "events_request (EventWithPropertiesMap ''nwc_payment_failed''
                 [(''payment_hash'', GString ''def''), (''reason'', GString ''no route'')])"
              logged_in refreshing payment_failed_event "[]"]
  by (simp add: payment_sent_run payment_received_run payment_failed_run
      payment_sent_event_fields payment_other_event_fields merged_properties_def
      sent_duration_5 json_Encode_def event_names_json example_strings_json)

text \<open>
  Two events at which the request does not carry what the transaction holds. A payment
  whose settlement time lies five seconds before its creation time is reported with the
  duration 18446744073709551616, which is \<open>2 ^ 64\<close>, where the difference of the two times
  is \<open>- 5\<close>. A failed payment whose reason is the single byte \<open>FF\<close> is reported with the
  three bytes of U+FFFD as its reason.
\<close>

lemma backdated_duration:
  "float64_of_uint64 (unat (duration_seconds (time_Unix 100) (time_Unix 105)))
     = 18446744073709551616"
proof -
  have "Unix (time_Unix 100) = 100" "Unix (time_Unix 105) = 105"
    by (simp_all add: Unix_def time_Unix_def wrap64_def unixToInternal_def)
  then have "duration_seconds (time_Unix 100) (time_Unix 105) = (word_of_int (- 5) :: 64 word)"
    by (simp add: duration_seconds_def)
  moreover have "unat (word_of_int (- 5) :: 64 word) = 18446744073709551611"
    by (simp add: unat_eq_nat_uint uint_word_of_int_eq take_bit_eq_mod)
  moreover have
    "takeWhile (\<lambda>j. (2::nat) ^ 53 \<le> 18446744073709551611 div 2 ^ j) [0..<12] = [0..<11]"
    by (simp add: upt_rec)
  then have "float64_of_uint64 18446744073709551611 = 18446744073709551616"
    unfolding float64_of_uint64_def by (simp add: Let_def)
  ultimately show ?thesis
    by simp
qed

theorem payment_events_not_verbatim:
  "requests_sent logged_in
     (snd (ConsumeEvent refreshing (Some backdated_sent_event) [] logged_in))
     = [events_request (EventWithPropertiesMap ''nwc_payment_sent''
          [(''payment_hash'', GString ''abc''),
           (''duration'', GNumber 18446744073709551616)])]
   \<and> Unix (time_Unix 100) - Unix (time_Unix 105) = - 5
   \<and> requests_sent logged_in
        (snd (ConsumeEvent refreshing (Some garbled_failed_event) [] logged_in))
     = [events_request (EventWithPropertiesMap ''nwc_payment_failed''
          [(''payment_hash'', GString ''def''),
           (''reason'', GString [CHR 0xEF, CHR 0xBF, CHR 0xBD])])]
   \<and> FailureReason garbled_payment = [CHR 0xFF]"
proof -
  have 1: "requests_sent logged_in
     (snd (ConsumeEvent refreshing (Some backdated_sent_event) [] logged_in))
     = [events_request (EventWithPropertiesMap ''nwc_payment_sent''
          [(''payment_hash'', GString ''abc''),
           (''duration'', GNumber 18446744073709551616)])]"
    by (simp add: ConsumeEvent_def recover_def ConsumeEvent_body_def cfg_Get_def
        cfg_logged_in refreshing_fields backdated_sent_event_def HasPrefix_def
        rewrite_received_def rewrite_sent_def rewrite_failed_def as_Transaction_def
        backdated_payment_def post_event_def fetchUserToken_logged_in encode_decode_def
        backdated_duration NewRequest_def client_Do_def setDefaultRequestHeaders_def
        header_Set_def events_request_def requests_sent_def new_effects_def json_Encode_def
        event_names_json example_strings_json)
  have 2: "Unix (time_Unix 100) - Unix (time_Unix 105) = - 5"
    by (simp add: Unix_def time_Unix_def wrap64_def unixToInternal_def)
  have 3: "requests_sent logged_in
        (snd (ConsumeEvent refreshing (Some garbled_failed_event) [] logged_in))
     = [events_request (EventWithPropertiesMap ''nwc_payment_failed''
          [(''payment_hash'', GString ''def''),
           (''reason'', GString [CHR 0xEF, CHR 0xBF, CHR 0xBD])])]"
    by (simp add: ConsumeEvent_def recover_def ConsumeEvent_body_def cfg_Get_def
        cfg_logged_in refreshing_fields garbled_failed_event_def HasPrefix_def
        rewrite_received_def rewrite_sent_def rewrite_failed_def as_Transaction_def
        garbled_payment_def post_event_def fetchUserToken_logged_in encode_decode_def
        NewRequest_def client_Do_def setDefaultRequestHeaders_def header_Set_def
        events_request_def requests_sent_def new_effects_def json_Encode_def event_names_json
        example_strings_json json_string_FF json_string_replacement)
  have 4: "FailureReason garbled_payment = [CHR 0xFF]"
    by (simp add: garbled_payment_def)
  from 1 2 3 4 show ?thesis
    by (simp only: simp_thms)
qed

section \<open>Provisioning goes on without a token\<close>

text \<open>
  C10. When fetching the user token fails, each of \<^verbatim>\<open>createAlbyAccountNWCNode\<close>,
  \<^verbatim>\<open>destroyAlbyAccountNWCNode\<close> and \<^verbatim>\<open>activateAlbyAccountNWCNode\<close> logs the failure and
  goes on: unless the request cannot even be built, exactly one request is handed to the
  HTTP client, with a nil token, and the result of the operation is the one that request
  leads to (the transport's error, the non-success error, or success). The error of the
  token fetch is not what the operation returns.
\<close>

theorem provisioning_ignores_token_error:
  assumes "fst (fetchUserToken e w) = Inl err"
  shows
    "(case NewRequest e ''POST'' (AlbyAPIURL e @ ''/internal/nwcs'')
             (CreateNWCNodeRequest (NostrPublicKey e)) of
        Inl rerr \<Rightarrow> fst (createAlbyAccountNWCNode e w) = Inl rerr
      | Inr req \<Rightarrow>
          requests_sent w (snd (createAlbyAccountNWCNode e w))
            = [(setDefaultRequestHeaders e req)\<lparr>Bearer := None, Timeout := 0\<rparr>]
          \<and> fst (createAlbyAccountNWCNode e w)
            = (case transport e
                      ((setDefaultRequestHeaders e req)\<lparr>Bearer := None, Timeout := 0\<rparr>) of
                 Inl terr \<Rightarrow> Inl terr
               | Inr resp \<Rightarrow>
                   if 300 \<le> StatusCode resp then Inl (non_success ''/internal/nwcs'')
                   else decode_CreateNWCNodeResponse e (ResponseBody resp)))
     \<and> (case NewRequest e ''DELETE'' (AlbyAPIURL e @ ''/internal/nwcs'') NoBody of
        Inl rerr \<Rightarrow> fst (destroyAlbyAccountNWCNode e w) = Some rerr
      | Inr req \<Rightarrow>
          requests_sent w (snd (destroyAlbyAccountNWCNode e w))
            = [(setDefaultRequestHeaders e req)\<lparr>Bearer := None, Timeout := 0\<rparr>]
          \<and> fst (destroyAlbyAccountNWCNode e w)
            = (case transport e
                      ((setDefaultRequestHeaders e req)\<lparr>Bearer := None, Timeout := 0\<rparr>) of
                 Inl terr \<Rightarrow> Some terr
               | Inr resp \<Rightarrow>
                   if 300 \<le> StatusCode resp then Some (non_success ''/internal/nwcs'')
                   else None))
     \<and> (case NewRequest e ''PUT'' (AlbyAPIURL e @ ''/internal/nwcs/activate'') NoBody of
        Inl rerr \<Rightarrow> fst (activateAlbyAccountNWCNode e w) = Some rerr
      | Inr req \<Rightarrow>
          requests_sent w (snd (activateAlbyAccountNWCNode e w))
            = [(setDefaultRequestHeaders e req)\<lparr>Bearer := None, Timeout := 0\<rparr>]
          \<and> fst (activateAlbyAccountNWCNode e w)
            = (case transport e
                      ((setDefaultRequestHeaders e req)\<lparr>Bearer := None, Timeout := 0\<rparr>) of
                 Inl terr \<Rightarrow> Some terr
               | Inr resp \<Rightarrow>
                   if 300 \<le> StatusCode resp then Some (non_success ''/internal/nwcs/activate'')
                   else None))
     \<and> LogError ''Failed to fetch user token''
          \<in> set (new_effects w (snd (createAlbyAccountNWCNode e w)))
            \<inter> set (new_effects w (snd (destroyAlbyAccountNWCNode e w)))
            \<inter> set (new_effects w (snd (activateAlbyAccountNWCNode e w)))"
proof -
  obtain r w0 where f: "fetchUserToken e w = (r, w0)"
    by (cases "fetchUserToken e w")
  with assms have r: "r = Inl err" by simp
  from fetchUserToken_traceD [OF f] obtain xs where
    xs: "trace w0 = trace w @ xs" "\<forall>req. HttpDo req \<notin> set xs" by blast
  then have filt: "concat (map (\<lambda>x. case x of HttpDo req \<Rightarrow> [req] | _ \<Rightarrow> []) xs) = []"
    by (auto split: effect.splits)
  show ?thesis
    unfolding createAlbyAccountNWCNode_def destroyAlbyAccountNWCNode_def
      activateAlbyAccountNWCNode_def
    using f r xs filt
    by (simp add: client_Do_def requests_sent_def new_effects_def non_success_def
        split: sum.splits)
qed

lemma provider_up_fields:
  "http_NewRequest_error provider_up m u = None"
  "transport provider_up req = Inr \<lparr>StatusCode = 200, ResponseBody = Inr ''{}''\<rparr>"
  "decode_CreateNWCNodeResponse provider_up body = Inr ''03cd''"
  by (simp_all add: provider_up_def offline_def)

lemma fetchUserToken_unreadable:
  "fetchUserToken e unreadable_store = (Inl (External ''config unreadable''), unreadable_store)"
  by (simp add: fetchUserToken_def cfg_Get_def unreadable_store_def)

text \<open>With an unreadable store the token fetch fails, and still all three operations
  succeed against a provider that answers 200, each with one request that carries no
  token.\<close>

theorem provisioning_ignores_token_error_witness:
  "fst (fetchUserToken provider_up unreadable_store) = Inl (External ''config unreadable'')
   \<and> fst (createAlbyAccountNWCNode provider_up unreadable_store) = Inr ''03cd''
   \<and> fst (destroyAlbyAccountNWCNode provider_up unreadable_store) = None
   \<and> fst (activateAlbyAccountNWCNode provider_up unreadable_store) = None
   \<and> map Bearer (requests_sent unreadable_store
                    (snd (createAlbyAccountNWCNode provider_up unreadable_store))) = [None]
   \<and> map Bearer (requests_sent unreadable_store
                    (snd (destroyAlbyAccountNWCNode provider_up unreadable_store))) = [None]
   \<and> map Bearer (requests_sent unreadable_store
                    (snd (activateAlbyAccountNWCNode provider_up unreadable_store))) = [None]"
  using provisioning_ignores_token_error
          [of provider_up unreadable_store "External ''config unreadable''"]
  by (simp add: fetchUserToken_unreadable NewRequest_def provider_up_fields)

section \<open>The fee of an auto-channel offer must match its invoice\<close>

lemma parse_digits_bound:
  "parse_digits n s = Inr m \<Longrightarrow> n < 2 ^ 64 \<Longrightarrow> m < 2 ^ 64"
  by (induction n s rule: parse_digits.induct) (auto split: if_splits)

lemma ParseUint_bound: "ParseUint s = Inr m \<Longrightarrow> m < 2 ^ 64"
  using parse_digits_bound [of 0 s m] by (auto simp add: ParseUint_def split: if_splits)

lemma sint_1000: "sint (1000 :: int64) = 1000"
  by simp

lemma sdiv_nonneg: "0 \<le> (k::int) \<Longrightarrow> 0 < l \<Longrightarrow> k sdiv l = k div l"
  by (cases "k = 0") (simp_all add: signed_divide_int_def)

lemma div_1000_le: "0 \<le> (x::int) \<Longrightarrow> x div 1000 \<le> x"
  using zdiv_mono2 [of x 1 1000] by simp

lemma int64_div_1000_nonneg:
  assumes "0 \<le> sint msat"
  shows "unat (int64_div msat 1000) = nat (sint msat div 1000)"
proof -
  have "sint msat < 2 ^ 63"
    using sint_lt [of msat] by simp
  with div_1000_le [OF assms] have "sint msat div 1000 < 2 ^ 64"
    by simp
  moreover have "0 \<le> sint msat div 1000"
    using assms by simp
  moreover have "sint msat sdiv sint (1000 :: int64) = sint msat div 1000"
    unfolding sint_1000 using assms by (intro sdiv_nonneg) simp_all
  ultimately show ?thesis
    unfolding int64_div_def by (simp only: unat_word_of_int_64)
qed

text \<open>For an invoice of a non-negative amount the comparison in the source is a comparison
  of whole satoshis: the fee against the millisatoshi amount divided by 1000, the
  remainder dropped.\<close>

lemma fee_check_in_satoshis:
  assumes "ParseUint s = Inr fee" and "0 \<le> sint msat"
  shows "((word_of_nat fee :: uint64) = int64_div msat 1000) \<longleftrightarrow> int fee = sint msat div 1000"
proof -
  have u: "unat (word_of_nat fee :: uint64) = fee"
    using ParseUint_bound [OF assms(1)] by (simp add: unat_of_nat)
  have n: "0 \<le> sint msat div 1000"
    using assms(2) by simp
  have "((word_of_nat fee :: uint64) = int64_div msat 1000)
          \<longleftrightarrow> unat (word_of_nat fee :: uint64) = unat (int64_div msat 1000)"
    by (rule word_unat_eq_iff)
  also have "\<dots> \<longleftrightarrow> fee = nat (sint msat div 1000)"
    by (simp only: u int64_div_1000_nonneg [OF assms(2)])
  also have "\<dots> \<longleftrightarrow> int fee = sint msat div 1000"
    using n by linarith
  finally show ?thesis .
qed

lemma requestAutoChannel_after_unmarshal:
  assumes "NewRequest e ''POST'' url (AutoChannelRequest pubkey isPublic) = Inr req"
    and "transport e ((setDefaultRequestHeaders e req)
           \<lparr>Bearer := token_or_nil (fst (fetchUserToken e w)), Timeout := 60 * Second\<rparr>) = Inr res"
    and "ResponseBody res = Inr body" and "StatusCode res < 300"
    and "unmarshal_autoChannelResponse e body = Inr resp"
    and "Payment resp = Some (invoice, feeTotalSat)"
  shows "fst (requestAutoChannel e url pubkey isPublic w) =
     (case ParseUint feeTotalSat of
        Inl err \<Rightarrow> Inl (Wrapped ''failed to parse fee'' err)
      | Inr fee \<Rightarrow>
          (case Decodepay e invoice of
             Inl err \<Rightarrow> Inl err
           | Inr msat \<Rightarrow>
               if (word_of_nat fee :: uint64) \<noteq> int64_div msat 1000 then Inl fee_mismatch_error
               else (case ParseUint (LspBalanceSat resp) of
                       Inl err \<Rightarrow> Inl (Wrapped ''failed to parse lsp balance sat'' err)
                     | Inr channelSize \<Rightarrow>
                         Inr \<lparr>Invoice = invoice, Fee = word_of_nat fee,
                              ChannelSize = word_of_nat channelSize\<rparr>)))"
proof -
  obtain r w0 where f: "fetchUserToken e w = (r, w0)"
    by (cases "fetchUserToken e w")
  show ?thesis
    unfolding requestAutoChannel_def
    using assms f
    by (cases r) (simp_all add: client_Do_def token_or_nil_def split: sum.splits)
qed

text \<open>
  C1. Take an auto-channel response that arrived with a status below 300, was read and
  decoded, and has a payment. Whenever \<^verbatim>\<open>requestAutoChannel\<close> then returns a result, the
  fee text parsed to a fee, the invoice decoded, and the fee equals the invoice amount in
  satoshis (the decoded millisatoshi amount divided by 1000 as the source divides it); the
  result carries that invoice and that fee. Whenever the fee parses, the invoice decodes
  and the two differ, the function returns the fee-mismatch error and no result. When
  they are equal and the channel size parses, the offer is accepted.
\<close>

theorem requestAutoChannel_fee_check:
  assumes "NewRequest e ''POST'' url (AutoChannelRequest pubkey isPublic) = Inr req"
    and "transport e ((setDefaultRequestHeaders e req)
           \<lparr>Bearer := token_or_nil (fst (fetchUserToken e w)), Timeout := 60 * Second\<rparr>) = Inr res"
    and "ResponseBody res = Inr body" and "StatusCode res < 300"
    and "unmarshal_autoChannelResponse e body = Inr resp"
    and "Payment resp = Some (invoice, feeTotalSat)"
  shows
    "(\<forall>r. fst (requestAutoChannel e url pubkey isPublic w) = Inr r \<longrightarrow>
        (\<exists>fee msat. ParseUint feeTotalSat = Inr fee \<and> Decodepay e invoice = Inr msat
           \<and> (word_of_nat fee :: uint64) = int64_div msat 1000
           \<and> Invoice r = invoice \<and> Fee r = word_of_nat fee))
     \<and> (\<forall>fee msat. ParseUint feeTotalSat = Inr fee \<longrightarrow> Decodepay e invoice = Inr msat \<longrightarrow>
          (word_of_nat fee :: uint64) \<noteq> int64_div msat 1000 \<longrightarrow>
          fst (requestAutoChannel e url pubkey isPublic w) = Inl fee_mismatch_error)
     \<and> (\<forall>fee msat channelSize. ParseUint feeTotalSat = Inr fee \<longrightarrow> Decodepay e invoice = Inr msat \<longrightarrow>
          (word_of_nat fee :: uint64) = int64_div msat 1000 \<longrightarrow>
          ParseUint (LspBalanceSat resp) = Inr channelSize \<longrightarrow>
          fst (requestAutoChannel e url pubkey isPublic w)
            = Inr \<lparr>Invoice = invoice, Fee = word_of_nat fee, ChannelSize = word_of_nat channelSize\<rparr>)"
  unfolding requestAutoChannel_after_unmarshal [OF assms]
  by (auto split: sum.splits if_splits)

lemma ParseUint_examples:
  "ParseUint ''500'' = Inr 500"
  "ParseUint ''501'' = Inr 501"
  "ParseUint ''1000000'' = Inr 1000000"
  by (simp_all add: ParseUint_def is_digit_def digit_value_def)

lemma int64_div_500000: "int64_div 500000 1000 = 500"
  by (simp add: int64_div_def signed_divide_int_def)

lemma quoting_fields:
  "http_NewRequest_error (quoting s) m u = None"
  "transport (quoting s) req = Inr \<lparr>StatusCode = 200, ResponseBody = Inr ''offer''\<rparr>"
  "unmarshal_autoChannelResponse (quoting s) body
     = Inr \<lparr>LspBalanceSat = ''1000000'', Payment = Some (''lnbc5u'', s)\<rparr>"
  "Decodepay (quoting s) invoice = Inr 500000"
  by (simp_all add: quoting_def offline_def)

text \<open>An invoice of 500000 msat: the fee \<open>500\<close> is accepted, the fee \<open>501\<close> is rejected
  with the fee-mismatch error.\<close>

theorem requestAutoChannel_fee_check_witness:
  "fst (requestAutoChannel (quoting ''500'') ''https://lsp/auto_channel'' ''02ab'' False empty_world)
     = Inr \<lparr>Invoice = ''lnbc5u'', Fee = 500, ChannelSize = 1000000\<rparr>
   \<and> fst (requestAutoChannel (quoting ''501'') ''https://lsp/auto_channel'' ''02ab'' False empty_world)
     = Inl fee_mismatch_error"
  using requestAutoChannel_fee_check
          [of "quoting ''500''" "''https://lsp/auto_channel''" "''02ab''" False
              "\<lparr>Method = ''POST'', URL = ''https://lsp/auto_channel'', Headers = [],
                Bearer = None, Timeout = 0, Body = AutoChannelRequest ''02ab'' False\<rparr>"
              empty_world "\<lparr>StatusCode = 200, ResponseBody = Inr ''offer''\<rparr>" "''offer''"
              "\<lparr>LspBalanceSat = ''1000000'', Payment = Some (''lnbc5u'', ''500'')\<rparr>"
              "''lnbc5u''" "''500''"]
        requestAutoChannel_fee_check
          [of "quoting ''501''" "''https://lsp/auto_channel''" "''02ab''" False
              "\<lparr>Method = ''POST'', URL = ''https://lsp/auto_channel'', Headers = [],
                Bearer = None, Timeout = 0, Body = AutoChannelRequest ''02ab'' False\<rparr>"
              empty_world "\<lparr>StatusCode = 200, ResponseBody = Inr ''offer''\<rparr>" "''offer''"
              "\<lparr>LspBalanceSat = ''1000000'', Payment = Some (''lnbc5u'', ''501'')\<rparr>"
              "''lnbc5u''" "''501''"]
  by (simp add: NewRequest_def quoting_fields ParseUint_examples int64_div_500000)


section \<open>No reachable LSP address\<close>

lemma onion_only_fields:
  "http_NewRequest_error onion_only m u = None"
  "transport onion_only req = Inr \<lparr>StatusCode = 200, ResponseBody = Inr ''info''\<rparr>"
  "unmarshal_lsps1LSPInfo onion_only body = Inr [''02ab@abcdefgh.onion:9735'']"
  "ln_GetInfo onion_only = Inr (''03ef'', ''bitcoin'')"
  "ln_ConnectPeer onion_only pk a p = None"
  by (simp_all add: onion_only_def offline_def)

lemma fetchUserToken_empty_world: "fetchUserToken e empty_world = (Inr None, empty_world)"
  by (simp add: fetchUserToken_def cfg_Get_def empty_world_def)

lemma Contains_onion: "Contains ''02ab@abcdefgh.onion:9735'' ''.onion''"
  by simp

text \<open>
  C7. An LSP whose only advertised URI is an onion address leaves no candidate after the
  filter. \<^verbatim>\<open>getLSPInfo\<close> then logs that it found no URI and returns empty results with
  the error variable as it stands, which is nil after the successful decoding: the caller
  is told that all went well.
\<close>

theorem getLSPInfo_onion_only_nil_error:
  "fst (getLSPInfo onion_only ''https://lsp/v1/get_info'' empty_world) = ([], [], 0, None)"
  by (simp add: getLSPInfo_def fetchUserToken_empty_world NewRequest_def onion_only_fields
      client_Do_def Contains_onion)

text \<open>What \<^verbatim>\<open>getLSPInfo\<close> returns once the response is decoded: nothing and no error when
  no candidate remains; the decoding error when the first candidate does not match the
  pattern; the port's parsing error; or the three parts of the first candidate.\<close>

lemma getLSPInfo_candidates:
  assumes "NewRequest e ''GET'' url NoBody = Inr req"
    and "transport e ((setDefaultRequestHeaders e req)
           \<lparr>Bearer := token_or_nil (fst (fetchUserToken e w)), Timeout := 60 * Second\<rparr>) = Inr res"
    and "ResponseBody res = Inr body"
    and "unmarshal_lsps1LSPInfo e body = Inr URIs"
  shows "fst (getLSPInfo e url w) =
     (case filter (\<lambda>uri. \<not> Contains uri ''.onion'') URIs of
        [] \<Rightarrow> ([], [], 0, None)
      | uri # rest \<Rightarrow>
          (case FindStringSubmatch uri of
             None \<Rightarrow> ([], [], 0, Some (Message ''could not decode LSP URI''))
           | Some (p1, p2, p3) \<Rightarrow>
               (case Atoi p3 of
                  Inl aerr \<Rightarrow> ([], [], 0, Some aerr)
                | Inr portValue \<Rightarrow> (p1, p2, word_of_int portValue, None))))"
proof -
  obtain r w0 where f: "fetchUserToken e w = (r, w0)"
    by (cases "fetchUserToken e w")
  show ?thesis
    unfolding getLSPInfo_def
    using assms f
    by (cases r)
       (simp_all add: client_Do_def token_or_nil_def Let_def
          split: sum.splits list.splits option.splits prod.splits)
qed

lemma requestAutoChannel_trace:
  "\<exists>xs. trace (snd (requestAutoChannel e url pubkey isPublic w)) = trace w @ xs"
proof -
  obtain r w0 where f: "fetchUserToken e w = (r, w0)"
    by (cases "fetchUserToken e w")
  from fetchUserToken_traceD [OF f] obtain xs where xs: "trace w0 = trace w @ xs"
    by blast
  show ?thesis
    unfolding requestAutoChannel_def
    using f xs
    by (cases r)
       (auto simp add: client_Do_def Let_def split: sum.splits option.splits prod.splits)
qed

lemma getLSPInfo_onion_only:
  "getLSPInfo onion_only url empty_world =
     (([], [], 0, None),
      logError ''Couldn't find HTTP URI''
        (emit (HttpDo ((setDefaultRequestHeaders onion_only
                          \<lparr>Method = ''GET'', URL = url, Headers = [], Bearer = None,
                           Timeout = 0, Body = NoBody\<rparr>)
                        \<lparr>Bearer := None, Timeout := 60 * Second\<rparr>))
           empty_world))"
  by (simp add: getLSPInfo_def fetchUserToken_empty_world NewRequest_def onion_only_fields
      client_Do_def Contains_onion)

text \<open>The caller, seeing no error, goes on and asks the node to connect to a peer with an
  empty key and an empty address.\<close>

lemma RequestAutoChannel_connects_to_nobody:
  "LnConnectPeer [] [] 0 \<in> set (trace (snd (RequestAutoChannel onion_only False empty_world)))"
proof -
  let ?w2 = "emit (LnConnectPeer [] [] 0)
               (snd (getLSPInfo onion_only
                       ''https://api.getalby.com/internal/lsp/alby/bitcoin/v1/get_info''
                       empty_world))"
  obtain xs where
    "trace (snd (requestAutoChannel onion_only
                   ''https://api.getalby.com/internal/lsp/alby/bitcoin/auto_channel''
                   ''03ef'' False ?w2)) = trace ?w2 @ xs"
    using requestAutoChannel_trace by blast
  then show ?thesis
    by (auto simp add: RequestAutoChannel_def onion_only_fields getLSPInfo_onion_only
        split: prod.splits sum.splits)
qed


lemma FindStringSubmatch_example:
  "FindStringSubmatch ''02ab@1.2.3.4:9735'' = Some (''02ab'', ''1.2.3.4'', ''9735'')"
  by (simp add: FindStringSubmatch_def run_then_def is_hex_def is_digit_def)

lemma clearnet_fields:
  "http_NewRequest_error clearnet m u = None"
  "transport clearnet req = Inr \<lparr>StatusCode = 200, ResponseBody = Inr ''info''\<rparr>"
  "unmarshal_lsps1LSPInfo clearnet body
     = Inr [''02ab@abcdefgh.onion:9735'', ''02ab@1.2.3.4:9735'']"
  by (simp_all add: clearnet_def offline_def)

lemma Atoi_9735: "Atoi ''9735'' = Inr 9735"
  by (simp add: Atoi_def ParseInt_def ParseUint_def is_digit_def digit_value_def)

text \<open>With a clear IPv4 address behind the onion address, the onion address is skipped and
  the three parts of the IPv4 candidate are returned.\<close>

lemma getLSPInfo_clearnet:
  "fst (getLSPInfo clearnet ''https://lsp/v1/get_info'' empty_world)
     = (''02ab'', ''1.2.3.4'', 9735, None)"
  by (simp add: getLSPInfo_def fetchUserToken_empty_world NewRequest_def clearnet_fields
      client_Do_def FindStringSubmatch_example Atoi_9735)

lemma FindStringSubmatch_onion:
  "FindStringSubmatch ''02ab@abcdefgh.onion:9735'' = None"
  by (simp add: FindStringSubmatch_def run_then_def is_hex_def is_digit_def)

section \<open>A callback for a different account\<close>

lemma fetchUserToken_cfg_other:
  assumes "k \<noteq> accessTokenKey" and "k \<noteq> accessTokenExpiryKey" and "k \<noteq> refreshTokenKey"
  shows "cfg (snd (fetchUserToken e w)) k = cfg w k"
  using assms
  by (simp add: fetchUserToken_def Let_def cfg_saveToken split: sum.splits)

lemma GetMe_cfg_other:
  assumes "k \<noteq> accessTokenKey" and "k \<noteq> accessTokenExpiryKey" and "k \<noteq> refreshTokenKey"
    and "k \<noteq> lightningAddressKey"
  shows "cfg (snd (GetMe e w)) k = cfg w k"
proof -
  obtain r w0 where f: "fetchUserToken e w = (r, w0)"
    by (cases "fetchUserToken e w")
  with fetchUserToken_cfg_other [OF assms(1-3), of e w] have "cfg w0 k = cfg w k"
    by simp
  with f assms(4) show ?thesis
    by (cases r) (simp_all add: GetMe_def client_Do_def Let_def split: sum.splits)
qed

lemma fetchUserToken_no_access_token:
  "cfg w accessTokenKey = Inr [] \<Longrightarrow> fetchUserToken e w = (Inr None, w)"
  by (simp add: fetchUserToken_def cfg_Get_def)



lemma relinking_fields:
  "now relinking = time_Unix 1000"
  "AlbyAPIURL relinking = ''https://api.getalby.com''"
  "oauth_Exchange relinking code = Inr token_a2"
  "http_NewRequest_error relinking m u = None"
  "transport relinking req = Inr \<lparr>StatusCode = 200, ResponseBody = Inr ''me''\<rparr>"
  "decode_AlbyMe relinking body = Inr user2"
  by (simp_all add: relinking_def offline_def user2_def)

lemma FormatInt_4600: "FormatInt (Unix (time_Unix 4600)) = ''4600''"
proof -
  have "Unix (time_Unix 4600) = 4600"
    by (simp add: Unix_def time_Unix_def wrap64_def unixToInternal_def)
  moreover have "FormatInt 4600 = ''4600''"
    by code_simp
  ultimately show ?thesis by simp
qed

lemma ParseInt_4600: "ParseInt ''4600'' = Inr 4600"
  by (simp add: ParseInt_def ParseUint_def is_digit_def digit_value_def)

lemma cfg_after_exchange:
  "cfg (saveToken token_a2 (emit (OAuthExchange code) linked_user1)) accessTokenKey = Inr ''a2''"
  "cfg (saveToken token_a2 (emit (OAuthExchange code) linked_user1)) refreshTokenKey = Inr ''r2''"
  "cfg (saveToken token_a2 (emit (OAuthExchange code) linked_user1)) accessTokenExpiryKey
     = Inr ''4600''"
  "cfg (saveToken token_a2 (emit (OAuthExchange code) linked_user1)) userIdentifierKey
     = Inr ''user1''"
proof -
  have t: "AccessToken token_a2 = ''a2''" "RefreshToken token_a2 = ''r2''"
    "Expiry token_a2 = time_Unix 4600"
    by (simp_all add: token_a2_def)
  show "cfg (saveToken token_a2 (emit (OAuthExchange code) linked_user1)) accessTokenKey
          = Inr ''a2''"
    by (simp add: cfg_saveToken t key_defs)
  show "cfg (saveToken token_a2 (emit (OAuthExchange code) linked_user1)) refreshTokenKey
          = Inr ''r2''"
    by (simp add: cfg_saveToken t key_defs)
  show "cfg (saveToken token_a2 (emit (OAuthExchange code) linked_user1)) accessTokenExpiryKey
          = Inr ''4600''"
    by (simp add: cfg_saveToken t FormatInt_4600 key_defs)
  show "cfg (saveToken token_a2 (emit (OAuthExchange code) linked_user1)) userIdentifierKey
          = Inr ''user1''"
    by (simp add: cfg_saveToken linked_user1_def key_defs)
qed

lemma fetchUserToken_after_exchange:
  "fetchUserToken relinking (saveToken token_a2 (emit (OAuthExchange code) linked_user1))
     = (Inr (Some token_a2), saveToken token_a2 (emit (OAuthExchange code) linked_user1))"
proof -
  have "After (Expiry token_a2) (Add (now relinking) (20 * Second))"
    by (simp add: After_def Add_def addSec_def time_Unix_def wrap64_def unixToInternal_def
        Second_def signed_divide_int_def signed_modulo_int_def relinking_fields token_a2_def)
  moreover have "\<lparr>AccessToken = ''a2'', RefreshToken = ''r2'', Expiry = time_Unix 4600\<rparr> = token_a2"
    by (simp add: token_a2_def)
  ultimately show ?thesis
    by (simp add: fetchUserToken_def cfg_Get_def cfg_after_exchange ParseInt_4600)
qed

lemma GetMe_after_exchange:
  "fst (GetMe relinking (saveToken token_a2 (emit (OAuthExchange code) linked_user1))) = Inr user2"
  "cfg (snd (GetMe relinking (saveToken token_a2 (emit (OAuthExchange code) linked_user1))))
     refreshTokenKey = Inr ''r2''"
  "cfg (snd (GetMe relinking (saveToken token_a2 (emit (OAuthExchange code) linked_user1))))
     accessTokenExpiryKey = Inr ''4600''"
  "cfg (snd (GetMe relinking (saveToken token_a2 (emit (OAuthExchange code) linked_user1))))
     userIdentifierKey = Inr ''user1''"
proof -
  let ?w = "saveToken token_a2 (emit (OAuthExchange code) linked_user1)"
  have g: "GetMe relinking ?w =
             (Inr user2,
              SetUpdate lightningAddressKey (LightningAddress user2)
                (emit (HttpDo ((setDefaultRequestHeaders relinking
                                  \<lparr>Method = ''GET'',
                                   URL = AlbyAPIURL relinking @ ''/internal/users'',
                                   Headers = [], Bearer = None, Timeout = 0, Body = NoBody\<rparr>)
                                \<lparr>Bearer := Some token_a2, Timeout := 0\<rparr>)) ?w))"
    by (simp add: GetMe_def fetchUserToken_after_exchange NewRequest_def
        relinking_fields(4,5,6) client_Do_def)
  show "fst (GetMe relinking ?w) = Inr user2"
    by (simp only: g fst_conv)
  show "cfg (snd (GetMe relinking ?w)) refreshTokenKey = Inr ''r2''"
    unfolding g snd_conv cfg_SetUpdate cfg_emit
    using cfg_after_exchange(2) [of code] by (simp add: key_defs)
  show "cfg (snd (GetMe relinking ?w)) accessTokenExpiryKey = Inr ''4600''"
    unfolding g snd_conv cfg_SetUpdate cfg_emit
    using cfg_after_exchange(3) [of code] by (simp add: key_defs)
  show "cfg (snd (GetMe relinking ?w)) userIdentifierKey = Inr ''user1''"
    unfolding g snd_conv cfg_SetUpdate cfg_emit
    using cfg_after_exchange(4) [of code] by (simp add: key_defs)
qed

lemma linked_user1_identity: "cfg linked_user1 userIdentifierKey = Inr ''user1''"
  by (simp add: linked_user1_def)




end
